theory Spec2Isabelle
  imports Main "HOL-Library.Stream"
begin

section \<open>The API client of the Cisco Umbrella integration (src/client.ts)\<close>

text \<open>
  The client is embedded by explicit state passing. The state holds the one mutable
  field of the class (the \<open>Authorization\<close> entry of \<open>this.headers\<close>) together with the
  world the client talks to: the outcomes the provider will give to the coming HTTP
  calls, the calls issued so far and the timers awaited so far. Exceptions are values:
  a routine returns \<open>Inl\<close> of what it throws and \<open>Inr\<close> of what it returns. The
  messages written to the logger have no part in what the client does next and are
  left out.
\<close>

subsection \<open>Text helpers\<close>

text \<open>Decimal rendering of a number inside a template string.\<close>

function show_nat :: "nat \<Rightarrow> string" where
  "show_nat n =
     (if n < 10 then [''0123456789'' ! n]
      else show_nat (n div 10) @ [''0123456789'' ! (n mod 10)])"
  by pat_completeness auto
termination
  by (relation "measure id") auto

declare show_nat.simps [simp del]

text \<open>\<open>Buffer.from(text).toString('base64')\<close>, on the bytes of the text.\<close>

definition base64_alphabet :: string where
  "base64_alphabet =
     ''ABCDEFGHIJKLMNOPQRSTUVWXYZabcdefghijklmnopqrstuvwxyz0123456789+/''"

fun base64_bytes :: "nat list \<Rightarrow> string" where
  "base64_bytes [] = []"
| "base64_bytes [a] =
     [base64_alphabet ! (a div 4), base64_alphabet ! ((a mod 4) * 16), CHR ''='', CHR ''='']"
| "base64_bytes [a, b] =
     [base64_alphabet ! (a div 4), base64_alphabet ! ((a mod 4) * 16 + b div 16),
      base64_alphabet ! ((b mod 16) * 4), CHR ''='']"
| "base64_bytes (a # b # c # rest) =
     [base64_alphabet ! (a div 4), base64_alphabet ! ((a mod 4) * 16 + b div 16),
      base64_alphabet ! ((b mod 16) * 4 + c div 64), base64_alphabet ! (c mod 64)]
     @ base64_bytes rest"

definition base64 :: "string \<Rightarrow> string" where
  "base64 text = base64_bytes (map of_char text)"

subsection \<open>Numbers and timers\<close>

text \<open>
  The numbers of the client are JavaScript's doubles. \<open>Number n\<close> is the whole number
  \<open>n\<close>, at most \<open>MAX_SAFE_INTEGER\<close>, which a double holds exactly; \<open>Large\<close> is a
  double above \<open>MAX_SAFE_INTEGER\<close>, \<open>Infinity\<close> included, of which no more is
  recorded; \<open>NaN\<close> is \<open>NaN\<close>. Of any other number (a fraction, a negative) the
  embedding says only that it has not computed it.
\<close>

datatype js_number =
    Number nat
  | Large
  | NaN
  | Unevaluated

definition MAX_SAFE_INTEGER :: nat where
  "MAX_SAFE_INTEGER = 9007199254740991"

text \<open>
  The double nearest to a whole number. Rounding keeps the order, and \<open>2^53\<close>, the
  whole number after \<open>MAX_SAFE_INTEGER\<close>, is a double: a whole number above
  \<open>MAX_SAFE_INTEGER\<close> is rounded to a double above it.
\<close>

definition whole :: "nat \<Rightarrow> js_number" where
  "whole n = (if n \<le> MAX_SAFE_INTEGER then Number n else Large)"

definition is_digit :: "char \<Rightarrow> bool" where
  "is_digit c \<longleftrightarrow> c \<in> set ''0123456789''"

definition decimal_value :: "string \<Rightarrow> nat" where
  "decimal_value v = foldl (\<lambda>n c. 10 * n + (of_char c - 48)) 0 v"

text \<open>
  A character that no numeric string has: one of ASCII that is neither white space nor
  among the characters of the decimal, hexadecimal, octal and binary notations and of
  \<open>Infinity\<close>.
\<close>

definition never_numeric :: "char \<Rightarrow> bool" where
  "never_numeric c \<longleftrightarrow>
     (of_char c :: nat) < 128
     \<and> (of_char c :: nat) \<notin> {9, 10, 11, 12, 13, 32}
     \<and> c \<notin> set ''0123456789+-.eEInfinityxXoObBabcdefABCDEF''"

text \<open>
  The number a string is taken for in a product: zero for the empty string, the
  double nearest to its value for a string of decimal digits, \<open>NaN\<close> for a string
  with a character that no numeric string has (an HTTP date, say). These cover the
  values a \<open>retry-after\<close> header has by its definition, a number of seconds in
  decimal digits or an HTTP date; the strings left are not evaluated.
\<close>

definition ToNumber :: "string \<Rightarrow> js_number" where
  "ToNumber v =
     (if v = [] then Number 0
      else if list_all is_digit v then whole (decimal_value v)
      else if list_ex never_numeric v then NaN
      else Unevaluated)"

text \<open>
  The product of a number and a whole number \<open>k\<close> from 1 to \<open>MAX_SAFE_INTEGER\<close>: the
  double nearest to the product of two whole numbers, a double above
  \<open>MAX_SAFE_INTEGER\<close> again for one above it, \<open>NaN\<close> for \<open>NaN\<close>.
\<close>

definition multiply :: "js_number \<Rightarrow> nat \<Rightarrow> js_number" where
  "multiply x k =
     (if 1 \<le> k \<and> k \<le> MAX_SAFE_INTEGER then
        (case x of
           Number n \<Rightarrow> whole (n * k)
         | Large \<Rightarrow> Large
         | NaN \<Rightarrow> NaN
         | Unevaluated \<Rightarrow> Unevaluated)
      else Unevaluated)"

text \<open>
  The delay of the timer that \<open>setTimeout(callback, ms)\<close> of Node.js sets: \<open>ms\<close>
  itself from 1 to \<open>TIMEOUT_MAX\<close>, and 1 for every other number and for \<open>NaN\<close>
  (\<open>if (!(after >= 1 && after <= TIMEOUT_MAX)) after = 1\<close>).
\<close>

definition TIMEOUT_MAX :: nat where
  "TIMEOUT_MAX = 2147483647"

definition timer_delay :: "js_number \<Rightarrow> js_number" where
  "timer_delay ms =
     (case ms of
        Number n \<Rightarrow> (if 1 \<le> n \<and> n \<le> TIMEOUT_MAX then Number n else Number 1)
      | Large \<Rightarrow> Number 1
      | NaN \<Rightarrow> Number 1
      | Unevaluated \<Rightarrow> Unevaluated)"

subsection \<open>Data\<close>

record integration_config =
  clientId :: string
  clientSecret :: string

text \<open>
  The body of a successful response, as far as the client looks at it: missing
  (\<open>null\<close>), a JSON array of records, or a JSON object, of which the
  client reads the fields \<open>access_token\<close> and \<open>data\<close> (an array when present).
\<close>

datatype 'a body =
    Absent
  | Array "'a list"
  | Object "string option" "'a list option"

datatype 'a gaxios_response = Response (response_data: "'a body")

text \<open>
  The \<open>headers\<close> field of a request specification is a reference: either to the
  client's own \<open>this.headers\<close> object, whose \<open>Authorization\<close> entry the client
  mutates, or to some other object with the entries given.
\<close>

datatype headers_ref =
    ThisHeaders
  | OtherHeaders "(string \<times> string) list"

record gaxios_options =
  url :: string
  "method" :: string
  headers :: headers_ref
  data :: "(string \<times> string) list"

text \<open>What goes over the wire: the request with its headers read at the time of the call.\<close>

record http_message =
  msg_method :: string
  msg_url :: string
  msg_headers :: "(string \<times> string) list"
  msg_data :: "(string \<times> string) list"

text \<open>
  The response attached to a \<open>GaxiosError\<close>. \<open>retry_after\<close> is
  \<open>response.headers['retry-after']\<close>: \<open>undefined\<close> when the response has no such
  header, the value of the header as a string otherwise; \<open>config_url\<close> is
  \<open>response.config.url\<close>.
\<close>

record err_response =
  status :: nat
  statusText :: string
  retry_after :: "string option"
  config_url :: "string option"

text \<open>What \<open>request\<close> or \<open>getToken\<close> may throw: a \<open>GaxiosError\<close>, or any other
  exception with its message and name (it has no \<open>response\<close> property).\<close>

datatype thrown =
    GaxiosError "err_response option"
  | OtherError string string

text \<open>The errors of the integration SDK, with \<open>status\<close>, \<open>statusText\<close> and
  \<open>endpoint\<close> (each possibly \<open>undefined\<close>), or with message and code; and an
  exception of any other kind, which an iteratee may throw.\<close>

datatype error =
    IntegrationProviderAuthenticationError "nat option" "string option" "string option"
  | IntegrationProviderAuthorizationError "nat option" "string option" "string option"
  | IntegrationProviderAPIError "nat option" "string option" "string option"
  | IntegrationError string string
  | Exception string string

text \<open>
  What becomes of one HTTP call: the provider replies with a success status and a
  body; it replies with an error status, a status text and possibly a \<open>retry-after\<close>
  header, which \<open>request\<close> throws as a \<open>GaxiosError\<close> carrying that response; or the
  call fails without a response, with an exception of the given message and name.
\<close>

datatype 'a outcome =
    Reply "'a body"
  | HttpError nat string "string option"
  | Failure string string

record 'a client =
  config :: integration_config
  Authorization :: string
  script :: "'a outcome stream"
  sent :: "http_message list"
  slept :: "js_number list"

definition RATE_LIMIT_SLEEP_TIME :: nat where
  "RATE_LIMIT_SLEEP_TIME = 5000"

definition MAX_RETRIES :: nat where
  "MAX_RETRIES = 3"

definition PAGE_SIZE :: nat where
  "PAGE_SIZE = 100"

definition BASE_URL :: string where
  "BASE_URL = ''https://api.umbrella.com''"

subsection \<open>The HTTP primitive\<close>

text \<open>The entries of a headers object while \<open>this.headers.Authorization\<close> holds
  \<open>auth\<close>.\<close>

definition header_entries :: "string \<Rightarrow> headers_ref \<Rightarrow> (string \<times> string) list" where
  "header_entries auth h =
     (case h of
        ThisHeaders \<Rightarrow> [(''Content-Type'', ''application/json''), (''Authorization'', auth)]
      | OtherHeaders entries \<Rightarrow> entries)"

definition on_wire :: "string \<Rightarrow> gaxios_options \<Rightarrow> http_message" where
  "on_wire auth opts =
     \<lparr>msg_method = method opts, msg_url = url opts,
      msg_headers = header_entries auth (headers opts), msg_data = data opts\<rparr>"

text \<open>
  \<open>request(opts)\<close> of gaxios: the call is issued, the provider's next outcome is
  consumed, and an error status or a failure is thrown.
\<close>

definition request :: "gaxios_options \<Rightarrow> 'a client \<Rightarrow> (thrown + 'a gaxios_response) \<times> 'a client" where
  "request opts s =
     (let s' = s\<lparr>script := stl (script s),
                  sent := sent s @ [on_wire (Authorization s) opts]\<rparr>
      in case shd (script s) of
           Reply b \<Rightarrow> (Inr (Response b), s')
         | HttpError st txt ra \<Rightarrow>
             (Inl (GaxiosError (Some \<lparr>status = st, statusText = txt, retry_after = ra,
                                      config_url = Some (url opts)\<rparr>)), s')
         | Failure m n \<Rightarrow> (Inl (OtherError m n), s'))"

subsection \<open>getToken\<close>

definition token_request :: "integration_config \<Rightarrow> gaxios_options" where
  "token_request cfg =
     \<lparr>url = BASE_URL @ ''/auth/v2/token'', method = ''POST'',
      headers = OtherHeaders
        [(''Authorization'', ''Basic '' @ base64 (clientId cfg @ '':'' @ clientSecret cfg))],
      data = [(''token_type'', ''bearer''), (''expires_in'', ''3600'')]\<rparr>"

text \<open>\<open>`Bearer ${response.data.access_token}`\<close>: a missing field renders as
  \<open>undefined\<close>; reading the field of a missing body, which is \<open>null\<close>, is a
  \<open>TypeError\<close>.\<close>

definition bearer_of :: "'a body \<Rightarrow> thrown + string" where
  "bearer_of b =
     (case b of
        Absent \<Rightarrow>
          Inl (OtherError ''Cannot read properties of null (reading 'access_token')''
                 ''TypeError'')
      | Array items \<Rightarrow> Inr (''Bearer '' @ ''undefined'')
      | Object None d \<Rightarrow> Inr (''Bearer '' @ ''undefined'')
      | Object (Some token) d \<Rightarrow> Inr (''Bearer '' @ token))"

definition getToken :: "'a client \<Rightarrow> (thrown + string) \<times> 'a client" where
  "getToken s =
     (if Authorization s = [] then
        (case request (token_request (config s)) s of
           (Inl err, s1) \<Rightarrow> (Inl err, s1)
         | (Inr response, s1) \<Rightarrow>
             (case bearer_of (response_data response) of
                Inl err \<Rightarrow> (Inl err, s1)
              | Inr bearer \<Rightarrow> (Inr bearer, s1\<lparr>Authorization := bearer\<rparr>)))
      else (Inr (Authorization s), s))"

subsection \<open>requestWithRetry\<close>

definition createIntegrationError :: "nat option \<Rightarrow> string option \<Rightarrow> string option \<Rightarrow> error" where
  "createIntegrationError st txt endpoint =
     (if st = Some 401 then IntegrationProviderAuthenticationError st txt endpoint
      else if st = Some 403 then IntegrationProviderAuthorizationError st txt endpoint
      else IntegrationProviderAPIError st txt endpoint)"

text \<open>The \<open>try\<close> block: \<open>await this.getToken(); return await request(requestOptions)\<close>.\<close>

definition attempt :: "gaxios_options \<Rightarrow> 'a client \<Rightarrow> (thrown + 'a gaxios_response) \<times> 'a client" where
  "attempt requestOptions s =
     (case getToken s of
        (Inl err, s1) \<Rightarrow> (Inl err, s1)
      | (Inr token, s1) \<Rightarrow> request requestOptions s1)"

text \<open>\<open>err.response?.status\<close> and \<open>err.response?.headers['retry-after']\<close>.\<close>

definition response_status :: "thrown \<Rightarrow> nat option" where
  "response_status err =
     (case err of GaxiosError r \<Rightarrow> map_option status r | OtherError m n \<Rightarrow> None)"

definition response_retry_after :: "thrown \<Rightarrow> string option" where
  "response_retry_after err =
     (case err of GaxiosError r \<Rightarrow> Option.bind r retry_after | OtherError m n \<Rightarrow> None)"

text \<open>How one pass of the loop ends: with the response returned, with an error
  thrown, or at the loop condition with the retry counter as it now stands.\<close>

datatype 'a pass =
    Returned "'a gaxios_response"
  | Raised error
  | Again nat

text \<open>
  \<open>header ? header * 1000 : this.RATE_LIMIT_SLEEP_TIME\<close>: a header that is missing
  or empty is false, every other string true.
\<close>

definition sleep_time :: "string option \<Rightarrow> js_number" where
  "sleep_time header =
     (case header of
        None \<Rightarrow> Number RATE_LIMIT_SLEEP_TIME
      | Some v \<Rightarrow>
          (if v = [] then Number RATE_LIMIT_SLEEP_TIME else multiply (ToNumber v) 1000))"

text \<open>\<open>await new Promise((resolve) => setTimeout(resolve, sleepTime))\<close>.\<close>

definition await_timeout :: "js_number \<Rightarrow> 'a client \<Rightarrow> 'a client" where
  "await_timeout ms s = s\<lparr>slept := slept s @ [timer_delay ms]\<rparr>"

text \<open>The \<open>catch\<close> block.\<close>

definition handle_error :: "thrown \<Rightarrow> nat \<Rightarrow> 'a client \<Rightarrow> 'a pass \<times> 'a client" where
  "handle_error err retryCounter s =
     (if response_status err = Some 429 then
        (let sleepTime = sleep_time (response_retry_after err)
         in (Again (retryCounter + 1), await_timeout sleepTime s))
      else if (response_status err = Some 401 \<or> response_status err = Some 403)
              \<and> retryCounter = 0 then
        (Again (retryCounter + 1), s\<lparr>Authorization := []\<rparr>)
      else
        (case err of
           GaxiosError r \<Rightarrow>
             (Raised (createIntegrationError (map_option status r) (map_option statusText r)
                        (Option.bind r config_url)), s)
         | OtherError m n \<Rightarrow> (Raised (IntegrationError m n), s)))"

definition retry_pass :: "gaxios_options \<Rightarrow> nat \<Rightarrow> 'a client \<Rightarrow> 'a pass \<times> 'a client" where
  "retry_pass requestOptions retryCounter s =
     (case attempt requestOptions s of
        (Inr response, s1) \<Rightarrow> (Returned response, s1)
      | (Inl err, s1) \<Rightarrow> handle_error err retryCounter s1)"

text \<open>The \<open>do ... while (retryCounter < this.MAX_RETRIES)\<close> loop; falling out of it
  returns \<open>undefined\<close>.\<close>

function retry_loop ::
  "gaxios_options \<Rightarrow> nat \<Rightarrow> 'a client \<Rightarrow> (error + 'a gaxios_response option) \<times> 'a client" where
  "retry_loop requestOptions retryCounter s =
     (case retry_pass requestOptions retryCounter s of
        (Returned response, s1) \<Rightarrow> (Inr (Some response), s1)
      | (Raised e, s1) \<Rightarrow> (Inl e, s1)
      | (Again retryCounter', s1) \<Rightarrow>
          (if retryCounter' < MAX_RETRIES
           then retry_loop requestOptions retryCounter' s1
           else (Inr None, s1)))"
  by pat_completeness auto
termination
  by (relation "measure (\<lambda>(requestOptions, retryCounter, s). MAX_RETRIES - retryCounter)")
     (auto simp: retry_pass_def handle_error_def Let_def
           split: prod.splits sum.splits if_splits thrown.splits)

declare retry_loop.simps [simp del]

definition requestWithRetry ::
  "gaxios_options \<Rightarrow> 'a client \<Rightarrow> (error + 'a gaxios_response option) \<times> 'a client" where
  "requestWithRetry requestOptions s = retry_loop requestOptions 0 s"

subsection \<open>verifyAuthentication\<close>

definition probe_request :: gaxios_options where
  "probe_request =
     \<lparr>url = BASE_URL @ ''/deployments/v2/sites?limit=1'', method = ''GET'',
      headers = ThisHeaders, data = []\<rparr>"

text \<open>\<open>if (response) return;\<close> and the end of the body return alike.\<close>

definition verifyAuthentication :: "'a client \<Rightarrow> (error + unit) \<times> 'a client" where
  "verifyAuthentication s =
     (case requestWithRetry probe_request s of
        (Inl e, s1) \<Rightarrow> (Inl e, s1)
      | (Inr response, s1) \<Rightarrow>
          (case response of Some r \<Rightarrow> (Inr (), s1) | None \<Rightarrow> (Inr (), s1)))"

subsection \<open>The pagination iterators\<close>

text \<open>
  An iteratee works on a state of the caller's own; it returns the new state or throws.
  \<open>for (const item of items) await iteratee(item)\<close> stops at the first throw.
\<close>

type_synonym ('a, 'c) ResourceIteratee = "'a \<Rightarrow> 'c \<Rightarrow> error + 'c"

fun for_each :: "('a, 'c) ResourceIteratee \<Rightarrow> 'a list \<Rightarrow> 'c \<Rightarrow> (error + unit) \<times> 'c" where
  "for_each iteratee [] c = (Inr (), c)"
| "for_each iteratee (item # items) c =
     (case iteratee item c of
        Inl e \<Rightarrow> (Inl e, c)
      | Inr c1 \<Rightarrow> for_each iteratee items c1)"

definition page_request :: "string \<Rightarrow> nat \<Rightarrow> gaxios_options" where
  "page_request requestUrl page =
     \<lparr>url = BASE_URL @ requestUrl @ ''?page='' @ show_nat page @ ''&limit='' @ show_nat PAGE_SIZE,
      method = ''GET'', headers = ThisHeaders, data = []\<rparr>"

text \<open>\<open>response?.data && response.data.length > 0\<close>: the records when the test holds.\<close>

definition flat_items :: "'a gaxios_response option \<Rightarrow> 'a list option" where
  "flat_items response =
     (case response of
        None \<Rightarrow> None
      | Some r \<Rightarrow>
          (case response_data r of
             Absent \<Rightarrow> None
           | Array items \<Rightarrow> (if length items > 0 then Some items else None)
           | Object token d \<Rightarrow> None))"

text \<open>\<open>response?.data?.data\<close>: the records when the field is there (an empty array
  passes the test).\<close>

definition nested_items :: "'a gaxios_response option \<Rightarrow> 'a list option" where
  "nested_items response =
     (case response of
        None \<Rightarrow> None
      | Some r \<Rightarrow>
          (case response_data r of
             Absent \<Rightarrow> None
           | Array items \<Rightarrow> None
           | Object token d \<Rightarrow> d))"

text \<open>
  The \<open>do ... while (!done && receivedCount == this.PAGE_SIZE)\<close> loop of
  \<open>requestIterator\<close>, with \<open>page\<close> and the iteratee's state as loop variables. Of
  the other two variables the loop condition is a function of the pass just made:
  the \<open>else\<close> branch sets \<open>done\<close>, which ends the loop, and the other branch leaves
  \<open>done\<close> false and sets \<open>receivedCount\<close> to the length of the page, so that the
  loop goes on exactly when that length is \<open>PAGE_SIZE\<close>. The loop need not end: not
  returning is \<open>None\<close>.
\<close>

partial_function (option) requestIterator_loop ::
  "string \<Rightarrow> ('a, 'c) ResourceIteratee \<Rightarrow> nat \<Rightarrow> 'c \<Rightarrow> 'a client
     \<Rightarrow> ((error + unit) \<times> 'c \<times> 'a client) option" where
  "requestIterator_loop requestUrl iteratee page c s =
     (case requestWithRetry (page_request requestUrl page) s of
        (Inl e, s1) \<Rightarrow> Some (Inl e, c, s1)
      | (Inr response, s1) \<Rightarrow>
          (case flat_items response of
             Some items \<Rightarrow>
               (case for_each iteratee items c of
                  (Inl e, c1) \<Rightarrow> Some (Inl e, c1, s1)
                | (Inr u, c1) \<Rightarrow>
                    (if length items = PAGE_SIZE
                     then requestIterator_loop requestUrl iteratee (page + 1) c1 s1
                     else Some (Inr (), c1, s1)))
           | None \<Rightarrow> Some (Inr (), c, s1)))"

definition requestIterator ::
  "string \<Rightarrow> ('a, 'c) ResourceIteratee \<Rightarrow> 'c \<Rightarrow> 'a client
     \<Rightarrow> ((error + unit) \<times> 'c \<times> 'a client) option" where
  "requestIterator requestUrl iteratee c s = requestIterator_loop requestUrl iteratee 1 c s"

partial_function (option) requestIteratorWithNestedData_loop ::
  "string \<Rightarrow> ('a, 'c) ResourceIteratee \<Rightarrow> nat \<Rightarrow> 'c \<Rightarrow> 'a client
     \<Rightarrow> ((error + unit) \<times> 'c \<times> 'a client) option" where
  "requestIteratorWithNestedData_loop requestUrl iteratee page c s =
     (case requestWithRetry (page_request requestUrl page) s of
        (Inl e, s1) \<Rightarrow> Some (Inl e, c, s1)
      | (Inr response, s1) \<Rightarrow>
          (case nested_items response of
             Some items \<Rightarrow>
               (case for_each iteratee items c of
                  (Inl e, c1) \<Rightarrow> Some (Inl e, c1, s1)
                | (Inr u, c1) \<Rightarrow>
                    (if length items = PAGE_SIZE
                     then requestIteratorWithNestedData_loop requestUrl iteratee (page + 1) c1 s1
                     else Some (Inr (), c1, s1)))
           | None \<Rightarrow> Some (Inr (), c, s1)))"

definition requestIteratorWithNestedData ::
  "string \<Rightarrow> ('a, 'c) ResourceIteratee \<Rightarrow> 'c \<Rightarrow> 'a client
     \<Rightarrow> ((error + unit) \<times> 'c \<times> 'a client) option" where
  "requestIteratorWithNestedData requestUrl iteratee c s =
     requestIteratorWithNestedData_loop requestUrl iteratee 1 c s"

subsection \<open>The resource iterators\<close>

definition iterateDestinations ::
  "nat \<Rightarrow> ('a, 'c) ResourceIteratee \<Rightarrow> 'c \<Rightarrow> 'a client
     \<Rightarrow> ((error + unit) \<times> 'c \<times> 'a client) option" where
  "iterateDestinations destinationListId iteratee c s =
     requestIteratorWithNestedData
       (''/policies/v2/destinationlists/'' @ show_nat destinationListId @ ''/destinations'')
       iteratee c s"

definition iterateDestinationLists ::
  "('a, 'c) ResourceIteratee \<Rightarrow> 'c \<Rightarrow> 'a client
     \<Rightarrow> ((error + unit) \<times> 'c \<times> 'a client) option" where
  "iterateDestinationLists iteratee c s =
     requestIteratorWithNestedData ''/policies/v2/destinationlists'' iteratee c s"

definition iterateDomains ::
  "('a, 'c) ResourceIteratee \<Rightarrow> 'c \<Rightarrow> 'a client
     \<Rightarrow> ((error + unit) \<times> 'c \<times> 'a client) option" where
  "iterateDomains iteratee c s =
     requestIterator ''/deployments/v2/internaldomains'' iteratee c s"

definition iterateNetworks ::
  "('a, 'c) ResourceIteratee \<Rightarrow> 'c \<Rightarrow> 'a client
     \<Rightarrow> ((error + unit) \<times> 'c \<times> 'a client) option" where
  "iterateNetworks iteratee c s =
     requestIterator ''/deployments/v2/internalnetworks'' iteratee c s"

definition iterateNetworkTunnels ::
  "('a, 'c) ResourceIteratee \<Rightarrow> 'c \<Rightarrow> 'a client
     \<Rightarrow> ((error + unit) \<times> 'c \<times> 'a client) option" where
  "iterateNetworkTunnels iteratee c s =
     requestIterator ''/deployments/v2/tunnels'' iteratee c s"

definition iteratePolicies ::
  "('a, 'c) ResourceIteratee \<Rightarrow> 'c \<Rightarrow> 'a client
     \<Rightarrow> ((error + unit) \<times> 'c \<times> 'a client) option" where
  "iteratePolicies iteratee c s =
     requestIterator ''/deployments/v2/policies'' iteratee c s"

definition iterateSites ::
  "('a, 'c) ResourceIteratee \<Rightarrow> 'c \<Rightarrow> 'a client
     \<Rightarrow> ((error + unit) \<times> 'c \<times> 'a client) option" where
  "iterateSites iteratee c s =
     requestIterator ''/deployments/v2/sites'' iteratee c s"

definition iterateVirtualAppliances ::
  "('a, 'c) ResourceIteratee \<Rightarrow> 'c \<Rightarrow> 'a client
     \<Rightarrow> ((error + unit) \<times> 'c \<times> 'a client) option" where
  "iterateVirtualAppliances iteratee c s =
     requestIterator ''/deployments/v2/virtualappliances'' iteratee c s"

definition iterateApplications ::
  "('a, 'c) ResourceIteratee \<Rightarrow> 'c \<Rightarrow> 'a client
     \<Rightarrow> ((error + unit) \<times> 'c \<times> 'a client) option" where
  "iterateApplications iteratee c s =
     requestIterator ''/reports/v2/appDiscovery/applications'' iteratee c s"

definition iterateApplicationCategories ::
  "('a, 'c) ResourceIteratee \<Rightarrow> 'c \<Rightarrow> 'a client
     \<Rightarrow> ((error + unit) \<times> 'c \<times> 'a client) option" where
  "iterateApplicationCategories iteratee c s =
     requestIterator ''/reports/v2/appDiscovery/applicationCategories'' iteratee c s"

definition iterateDevices ::
  "('a, 'c) ResourceIteratee \<Rightarrow> 'c \<Rightarrow> 'a client
     \<Rightarrow> ((error + unit) \<times> 'c \<times> 'a client) option" where
  "iterateDevices iteratee c s =
     requestIterator ''/deployments/v2/networkdevices'' iteratee c s"

definition iterateUsers ::
  "('a, 'c) ResourceIteratee \<Rightarrow> 'c \<Rightarrow> 'a client
     \<Rightarrow> ((error + unit) \<times> 'c \<times> 'a client) option" where
  "iterateUsers iteratee c s = requestIterator ''/admin/v2/users'' iteratee c s"

definition iterateRoles ::
  "('a, 'c) ResourceIteratee \<Rightarrow> 'c \<Rightarrow> 'a client
     \<Rightarrow> ((error + unit) \<times> 'c \<times> 'a client) option" where
  "iterateRoles iteratee c s = requestIterator ''/admin/v2/roles'' iteratee c s"

subsection \<open>Runs of the client\<close>

text \<open>
  A caller drives one iterator after the other on the same client. Each is one of the
  two shapes on some path; what an iterator throws is the caller's to catch, and the
  next one starts from the state the client is then in.
\<close>

datatype ('a, 'c) iteration =
    FlatIteration string "('a, 'c) ResourceIteratee"
  | NestedIteration string "('a, 'c) ResourceIteratee"

definition perform ::
  "('a, 'c) iteration \<Rightarrow> 'c \<Rightarrow> 'a client \<Rightarrow> ((error + unit) \<times> 'c \<times> 'a client) option" where
  "perform it c s =
     (case it of
        FlatIteration requestUrl iteratee \<Rightarrow> requestIterator requestUrl iteratee c s
      | NestedIteration requestUrl iteratee \<Rightarrow>
          requestIteratorWithNestedData requestUrl iteratee c s)"

fun run_iterations ::
  "('a, 'c) iteration list \<Rightarrow> 'c \<Rightarrow> 'a client \<Rightarrow> ('c \<times> 'a client) option" where
  "run_iterations [] c s = Some (c, s)"
| "run_iterations (it # its) c s =
     (case perform it c s of
        None \<Rightarrow> None
      | Some (r, c1, s1) \<Rightarrow> run_iterations its c1 s1)"

subsection \<open>Observations on a run\<close>

text \<open>The request a pass of the retry loop issues first: the credential exchange when
  the token slot is empty, the request itself otherwise.\<close>

definition first_request :: "'a client \<Rightarrow> gaxios_options \<Rightarrow> gaxios_options" where
  "first_request s opts = (if Authorization s = [] then token_request (config s) else opts)"

text \<open>A credential exchange among the calls issued.\<close>

definition is_token_post :: "http_message \<Rightarrow> bool" where
  "is_token_post m \<longleftrightarrow> msg_method m = ''POST'' \<and> msg_url m = BASE_URL @ ''/auth/v2/token''"

text \<open>A reply with status 401 or 403.\<close>

definition auth_failure :: "'a outcome \<Rightarrow> bool" where
  "auth_failure out =
     (case out of
        Reply b \<Rightarrow> False
      | HttpError st txt ra \<Rightarrow> st = 401 \<or> st = 403
      | Failure m n \<Rightarrow> False)"

text \<open>
  Between two states of a run: the calls issued, the outcomes the provider gave to
  them, and the two paired up.
\<close>

definition new_calls :: "'a client \<Rightarrow> 'a client \<Rightarrow> http_message list" where
  "new_calls s s' = drop (length (sent s)) (sent s')"

definition consumed :: "'a client \<Rightarrow> 'a client \<Rightarrow> 'a outcome list" where
  "consumed s s' = stake (length (sent s') - length (sent s)) (script s)"

definition exchanges :: "'a client \<Rightarrow> 'a client \<Rightarrow> (http_message \<times> 'a outcome) list" where
  "exchanges s s' = zip (new_calls s s') (consumed s s')"

text \<open>A credential exchange that yields a token: the call is one, and its reply has a
  body from which \<open>getToken\<close> makes the bearer string.\<close>

definition yields_token :: "'a outcome \<Rightarrow> bool" where
  "yields_token out =
     (case out of
        Reply b \<Rightarrow> (case bearer_of b of Inl err \<Rightarrow> False | Inr bearer \<Rightarrow> True)
      | HttpError st txt ra \<Rightarrow> False
      | Failure m n \<Rightarrow> False)"

definition token_granted :: "http_message \<times> 'a outcome \<Rightarrow> bool" where
  "token_granted x \<longleftrightarrow> is_token_post (fst x) \<and> yields_token (snd x)"

text \<open>
  The discipline a run keeps while the provider answers neither 401 nor 403: a token
  in the slot stays and no credential exchange is issued; and a token is granted once
  when the slot goes from empty to filled, and never otherwise.
\<close>

definition token_discipline :: "'a client \<Rightarrow> 'a client \<Rightarrow> bool" where
  "token_discipline s s' \<longleftrightarrow>
     sent s' = sent s @ new_calls s s' \<and> script s = consumed s s' @- script s'
     \<and> (if list_ex auth_failure (consumed s s') then True
          else (if Authorization s \<noteq> []
                then Authorization s' = Authorization s
                     \<and> \<not> list_ex is_token_post (new_calls s s')
                else True)
               \<and> length (filter token_granted (exchanges s s')) =
                   (if Authorization s = [] \<and> Authorization s' \<noteq> [] then 1 else 0))"

text \<open>An iteratee that keeps the records it is called with, in the order of the calls.\<close>

definition collect :: "('a, 'a list) ResourceIteratee" where
  "collect item c = Inr (c @ [item])"

subsection \<open>Example clients\<close>

definition example_config :: integration_config where
  "example_config = \<lparr>clientId = ''id'', clientSecret = ''secret''\<rparr>"

definition example_client :: "string \<Rightarrow> nat outcome list \<Rightarrow> nat client" where
  "example_client auth outs =
     \<lparr>config = example_config, Authorization = auth,
      script = outs @- sconst (Failure ''socket hang up'' ''FetchError''),
      sent = [], slept = []\<rparr>"

section \<open>Properties\<close>

subsection \<open>One pass of the retry loop\<close>

lemma getToken_held: "Authorization s \<noteq> [] \<Longrightarrow> getToken s = (Inr (Authorization s), s)"
  by (simp add: getToken_def)

lemma bearer_of_nonempty: "bearer_of tb = Inr bearer \<Longrightarrow> bearer \<noteq> []"
  by (auto simp: bearer_of_def split: body.splits option.splits)

lemma attempt_HttpError:
  "shd (script s) = HttpError st reason ra \<Longrightarrow>
   attempt opts s =
     (Inl (GaxiosError (Some \<lparr>status = st, statusText = reason, retry_after = ra,
                               config_url = Some (url (first_request s opts))\<rparr>)),
      s\<lparr>script := stl (script s),
        sent := sent s @ [on_wire (Authorization s) (first_request s opts)]\<rparr>)"
  by (simp add: attempt_def getToken_def request_def first_request_def)

lemma attempt_Failure:
  "shd (script s) = Failure m n \<Longrightarrow>
   attempt opts s =
     (Inl (OtherError m n),
      s\<lparr>script := stl (script s),
        sent := sent s @ [on_wire (Authorization s) (first_request s opts)]\<rparr>)"
  by (simp add: attempt_def getToken_def request_def first_request_def)

lemma attempt_held: "Authorization s \<noteq> [] \<Longrightarrow> attempt opts s = request opts s"
  by (simp add: attempt_def getToken_def)

lemma attempt_token:
  "Authorization s = [] \<Longrightarrow> shd (script s) = Reply tb \<Longrightarrow> bearer_of tb = Inr bearer \<Longrightarrow>
   attempt opts s =
     request opts (s\<lparr>script := stl (script s),
                      sent := sent s @ [on_wire [] (token_request (config s))],
                      Authorization := bearer\<rparr>)"
  by (simp add: attempt_def getToken_def request_def)


lemma attempt_thrown_url:
  "attempt opts s = (Inl (GaxiosError (Some r)), s1) \<Longrightarrow>
   config_url r = Some (msg_url (last (sent s1)))"
  by (auto simp: attempt_def getToken_def request_def Let_def on_wire_def bearer_of_def
           split: prod.splits sum.splits outcome.splits if_splits body.splits option.splits)

lemma handle_error_sent: "sent (snd (handle_error err rc s)) = sent s"
  by (simp add: handle_error_def await_timeout_def Let_def split: thrown.splits)

lemma retry_pass_sent: "sent (snd (retry_pass opts rc s)) = sent (snd (attempt opts s))"
  by (simp add: retry_pass_def handle_error_sent split: prod.splits sum.splits)

lemma retry_pass_429:
  "shd (script s) = HttpError 429 reason ra \<Longrightarrow>
   retry_pass opts rc s =
     (Again (rc + 1),
      s\<lparr>script := stl (script s),
        sent := sent s @ [on_wire (Authorization s) (first_request s opts)],
        slept := slept s @ [timer_delay (sleep_time ra)]\<rparr>)"
  by (simp add: retry_pass_def attempt_HttpError handle_error_def await_timeout_def
        response_status_def response_retry_after_def)

lemma retry_pass_auth:
  "shd (script s) = HttpError st reason ra \<Longrightarrow> st = 401 \<or> st = 403 \<Longrightarrow>
   retry_pass opts 0 s =
     (Again 1,
      s\<lparr>script := stl (script s),
        sent := sent s @ [on_wire (Authorization s) (first_request s opts)],
        Authorization := []\<rparr>)"
  by (auto simp: retry_pass_def attempt_HttpError handle_error_def await_timeout_def response_status_def)

lemma retry_pass_Reply:
  "Authorization s \<noteq> [] \<Longrightarrow> shd (script s) = Reply b \<Longrightarrow>
   retry_pass opts rc s =
     (Returned (Response b),
      s\<lparr>script := stl (script s), sent := sent s @ [on_wire (Authorization s) opts]\<rparr>)"
  by (simp add: retry_pass_def attempt_held request_def)

lemma retry_pass_token_Reply:
  "Authorization s = [] \<Longrightarrow> shd (script s) = Reply tb \<Longrightarrow> bearer_of tb = Inr bearer \<Longrightarrow>
   shd (stl (script s)) = Reply b \<Longrightarrow>
   retry_pass opts rc s =
     (Returned (Response b),
      s\<lparr>script := stl (stl (script s)),
        sent := sent s @ [on_wire [] (token_request (config s)), on_wire bearer opts],
        Authorization := bearer\<rparr>)"
  by (simp add: retry_pass_def attempt_token request_def)

lemma retry_pass_held:
  assumes "Authorization s \<noteq> []" and "retry_pass opts rc s = (p, s')"
  shows "sent s' = sent s @ [on_wire (Authorization s) opts] \<and> script s' = stl (script s)
         \<and> (\<not> auth_failure (shd (script s)) \<longrightarrow> Authorization s' = Authorization s)"
  using assms
  by (auto simp: retry_pass_def attempt_held request_def handle_error_def await_timeout_def response_status_def
        Let_def auth_failure_def split: outcome.splits if_splits)

lemma retry_pass_empty:
  assumes "Authorization s = []" and "retry_pass opts rc s = (p, s')"
  shows "(sent s' = sent s @ [on_wire [] (token_request (config s))]
          \<and> script s' = stl (script s) \<and> Authorization s' = []
          \<and> \<not> yields_token (shd (script s)))
         \<or> (\<exists>bearer. sent s' = sent s @ [on_wire [] (token_request (config s)),
                                             on_wire bearer opts]
              \<and> script s' = stl (stl (script s)) \<and> yields_token (shd (script s))
              \<and> (\<not> auth_failure (shd (stl (script s))) \<longrightarrow> Authorization s' \<noteq> []))"
  using assms
  by (auto simp: retry_pass_def attempt_def getToken_def request_def handle_error_def await_timeout_def
        response_status_def Let_def auth_failure_def yields_token_def bearer_of_def
        split: outcome.splits if_splits sum.splits body.splits option.splits)

lemmas delay_defs =
  timer_delay_def sleep_time_def ToNumber_def multiply_def whole_def is_digit_def
  decimal_value_def never_numeric_def TIMEOUT_MAX_def MAX_SAFE_INTEGER_def
  RATE_LIMIT_SLEEP_TIME_def await_timeout_def

lemma attempt_config: "config (snd (attempt opts s)) = config s"
  by (auto simp: attempt_def getToken_def request_def Let_def
           split: prod.splits sum.splits outcome.splits)

lemma attempt_empty_Inr:
  assumes "Authorization s = []" and "attempt opts s = (Inr response, s2)"
  shows "\<exists>bearer. bearer \<noteq> [] \<and> Authorization s2 = bearer
           \<and> sent s2 = sent s @ [on_wire [] (token_request (config s)), on_wire bearer opts]"
  using assms
  by (auto simp: attempt_def getToken_def request_def Let_def bearer_of_def
           split: prod.splits sum.splits outcome.splits body.splits option.splits)

lemma retry_pass_returned:
  "attempt opts s = (Inr response, s1) \<Longrightarrow> retry_pass opts rc s = (Returned response, s1)"
  by (simp add: retry_pass_def)

lemma retry_pass_rate_limited:
  "attempt opts s = (Inl err, s1) \<Longrightarrow> response_status err = Some 429 \<Longrightarrow>
   header = response_retry_after err \<Longrightarrow>
   retry_pass opts rc s = (Again (rc + 1), await_timeout (sleep_time header) s1)"
  by (simp add: retry_pass_def handle_error_def await_timeout_def)

lemma retry_pass_unauthorized:
  "attempt opts s = (Inl err, s1) \<Longrightarrow>
   response_status err = Some 401 \<or> response_status err = Some 403 \<Longrightarrow>
   retry_pass opts 0 s = (Again 1, s1\<lparr>Authorization := []\<rparr>)"
  by (auto simp: retry_pass_def handle_error_def await_timeout_def)

lemma retry_pass_refused:
  "attempt opts s = (Inl (GaxiosError (Some r)), s1) \<Longrightarrow> status r = 401 \<Longrightarrow> rc \<noteq> 0 \<Longrightarrow>
   retry_pass opts rc s =
     (Raised (IntegrationProviderAuthenticationError (Some 401) (Some (statusText r))
                (config_url r)), s1)"
  by (simp add: retry_pass_def handle_error_def await_timeout_def response_status_def createIntegrationError_def)

subsection \<open>The retry loop\<close>

lemma retry_loop_Returned:
  "retry_pass opts rc s = (Returned response, s1) \<Longrightarrow>
   retry_loop opts rc s = (Inr (Some response), s1)"
  by (subst retry_loop.simps) simp

lemma retry_loop_Raised:
  "retry_pass opts rc s = (Raised e, s1) \<Longrightarrow> retry_loop opts rc s = (Inl e, s1)"
  by (subst retry_loop.simps) simp

lemma retry_loop_Again:
  "retry_pass opts rc s = (Again rc', s1) \<Longrightarrow> rc' < MAX_RETRIES \<Longrightarrow>
   retry_loop opts rc s = retry_loop opts rc' s1"
  by (subst retry_loop.simps) simp

lemma retry_loop_same_pass:
  "retry_pass opts rc s = retry_pass opts rc t \<Longrightarrow> retry_loop opts rc s = retry_loop opts rc t"
  by (simp add: retry_loop.simps [of opts rc s] retry_loop.simps [of opts rc t])

lemma retry_loop_exhausted:
  "retry_pass opts rc s = (Again rc', s1) \<Longrightarrow> \<not> rc' < MAX_RETRIES \<Longrightarrow>
   retry_loop opts rc s = (Inr None, s1)"
  by (subst retry_loop.simps) simp

lemma three_429_exhaust:
  assumes "script s = HttpError 429 t1 r1 ## HttpError 429 t2 r2 ## HttpError 429 t3 r3 ## rest"
  shows "requestWithRetry opts s =
           (Inr None,
            s\<lparr>script := rest,
              sent := sent s @ replicate 3 (on_wire (Authorization s) (first_request s opts)),
              slept := slept s @
                map (\<lambda>header. timer_delay (sleep_time header)) [r1, r2, r3]\<rparr>)"
proof -
  let ?m = "on_wire (Authorization s) (first_request s opts)"
  let ?d = "\<lambda>header. timer_delay (sleep_time header)"
  let ?s1 = "s\<lparr>script := HttpError 429 t2 r2 ## HttpError 429 t3 r3 ## rest,
               sent := sent s @ [?m], slept := slept s @ [?d r1]\<rparr>"
  let ?s2 = "s\<lparr>script := HttpError 429 t3 r3 ## rest,
               sent := sent s @ [?m, ?m], slept := slept s @ [?d r1, ?d r2]\<rparr>"
  let ?s3 = "s\<lparr>script := rest,
               sent := sent s @ [?m, ?m, ?m], slept := slept s @ [?d r1, ?d r2, ?d r3]\<rparr>"
  have p1: "retry_pass opts 0 s = (Again 1, ?s1)"
    using retry_pass_429 [of s t1 r1 opts 0] assms by simp
  have p2: "retry_pass opts 1 ?s1 = (Again 2, ?s2)"
    using retry_pass_429 [of ?s1 t2 r2 opts 1] by (simp add: first_request_def)
  have p3: "retry_pass opts 2 ?s2 = (Again 3, ?s3)"
    using retry_pass_429 [of ?s2 t3 r3 opts 2] by (simp add: first_request_def)
  have "retry_loop opts 0 s = retry_loop opts 1 ?s1"
    by (rule retry_loop_Again [OF p1]) (simp add: MAX_RETRIES_def)
  also have "\<dots> = retry_loop opts 2 ?s2"
    by (rule retry_loop_Again [OF p2]) (simp add: MAX_RETRIES_def)
  also have "\<dots> = (Inr None, ?s3)"
    by (rule retry_loop_exhausted [OF p3]) (simp add: MAX_RETRIES_def)
  finally show ?thesis
    by (simp add: requestWithRetry_def numeral_3_eq_3)
qed

lemma requestWithRetry_Reply:
  assumes "Authorization s \<noteq> []" and "shd (script s) = Reply b"
  shows "requestWithRetry opts s =
           (Inr (Some (Response b)),
            s\<lparr>script := stl (script s), sent := sent s @ [on_wire (Authorization s) opts]\<rparr>)"
  unfolding requestWithRetry_def
  by (rule retry_loop_Returned) (rule retry_pass_Reply [OF assms])

lemma requestWithRetry_token_Reply:
  assumes "Authorization s = []" and "bearer_of tb = Inr bearer"
      and "script s = Reply tb ## Reply b ## rest"
  shows "requestWithRetry opts s =
           (Inr (Some (Response b)),
            s\<lparr>script := rest,
              sent := sent s @ [on_wire [] (token_request (config s)), on_wire bearer opts],
              Authorization := bearer\<rparr>)"
proof -
  have "retry_pass opts 0 s =
          (Returned (Response b),
           s\<lparr>script := stl (stl (script s)),
             sent := sent s @ [on_wire [] (token_request (config s)), on_wire bearer opts],
             Authorization := bearer\<rparr>)"
    by (rule retry_pass_token_Reply [where tb = tb]) (simp_all add: assms)
  then show ?thesis
    unfolding requestWithRetry_def using assms(3) by (simp add: retry_loop_Returned)
qed

subsection \<open>Rate limiting\<close>

text \<open>
  C7: absorbing a 429 leaves the token slot alone. Whatever the slot holds when an
  attempt has failed with status 429, the pass ends at the loop condition with the
  counter one higher and with the state of that moment changed in the sleep log only:
  the slot holds the same value when the retried attempt starts.
\<close>

theorem rate_limit_keeps_token:
  assumes "attempt requestOptions s = (Inl err, s1)"
      and "response_status err = Some 429"
  shows "retry_pass requestOptions retryCounter s =
           (Again (retryCounter + 1),
            s1\<lparr>slept := slept s1 @ [timer_delay (sleep_time (response_retry_after err))]\<rparr>)
         \<and> Authorization (snd (retry_pass requestOptions retryCounter s)) = Authorization s1"
  using assms by (simp add: retry_pass_def handle_error_def await_timeout_def)

theorem rate_limit_keeps_token_witness:
  "attempt probe_request
     (example_client ''Bearer t'' [HttpError 429 ''Too Many Requests'' (Some ''2'')])
   = (Inl (GaxiosError (Some \<lparr>status = 429, statusText = ''Too Many Requests'',
                                retry_after = Some ''2'',
                                config_url = Some (url probe_request)\<rparr>)),
      (example_client ''Bearer t'' [])\<lparr>sent := [on_wire ''Bearer t'' probe_request]\<rparr>)
   \<and> response_status
        (GaxiosError (Some \<lparr>status = 429, statusText = ''Too Many Requests'',
                               retry_after = Some ''2'',
                               config_url = Some (url probe_request)\<rparr>)) = Some 429
   \<and> retry_pass probe_request 0
        (example_client ''Bearer t'' [HttpError 429 ''Too Many Requests'' (Some ''2'')])
       = (Again 1,
          (example_client ''Bearer t'' [])\<lparr>sent := [on_wire ''Bearer t'' probe_request],
                                            slept := [Number 2000]\<rparr>)
   \<and> Authorization
        (snd (retry_pass probe_request 0
                (example_client ''Bearer t'' [HttpError 429 ''Too Many Requests'' (Some ''2'')])))
       = ''Bearer t''"
proof -
  let ?s = "example_client ''Bearer t'' [HttpError 429 ''Too Many Requests'' (Some ''2'')]"
  let ?err = "GaxiosError (Some \<lparr>status = 429, statusText = ''Too Many Requests'',
                                   retry_after = Some ''2'',
                                   config_url = Some (url probe_request)\<rparr>)"
  let ?s1 = "(example_client ''Bearer t'' [])\<lparr>sent := [on_wire ''Bearer t'' probe_request]\<rparr>"
  have h1: "attempt probe_request ?s = (Inl ?err, ?s1)"
    by (simp add: attempt_def getToken_def request_def example_client_def)
  have h2: "response_status ?err = Some 429"
    by (simp add: response_status_def)
  show ?thesis
    using h1 h2 rate_limit_keeps_token [OF h1 h2, of 0]
    by (simp add: response_retry_after_def example_client_def delay_defs)
qed




subsection \<open>Authentication failures\<close>

text \<open>
  C4: when the first attempt of \<open>requestWithRetry\<close> fails with status 401 or 403,
  whether the token slot held a token before it or the attempt acquired one, the pass
  ends in the state the attempt left with the token slot cleared, and with the counter
  at 1. The pass after it starts with exactly one credential exchange, and issues
  after it the request at most, under the token the exchange gave. When the retried
  attempt succeeds, its response is returned without throwing; the calls it has added
  are the exchange and the request, and the slot holds the token of that exchange.
\<close>

theorem auth_failure_refreshes_token:
  assumes "attempt requestOptions s = (Inl err, s1)"
      and "response_status err = Some 401 \<or> response_status err = Some 403"
  shows "retry_pass requestOptions 0 s = (Again 1, s1\<lparr>Authorization := []\<rparr>)
         \<and> (\<exists>after. sent (snd (retry_pass requestOptions 1 (s1\<lparr>Authorization := []\<rparr>))) =
                  sent s1 @ on_wire [] (token_request (config s)) # after
                \<and> (after = [] \<or> (\<exists>bearer. after = [on_wire bearer requestOptions])))
         \<and> (\<forall>response s2.
              attempt requestOptions (s1\<lparr>Authorization := []\<rparr>) = (Inr response, s2) \<longrightarrow>
              requestWithRetry requestOptions s = (Inr (Some response), s2)
              \<and> (\<exists>bearer. bearer \<noteq> [] \<and> Authorization s2 = bearer
                    \<and> sent s2 = sent s1 @ [on_wire [] (token_request (config s)),
                                            on_wire bearer requestOptions]))
         \<and> (\<forall>tb bearer b rest.
              script s1 = Reply tb ## Reply b ## rest \<and> bearer_of tb = Inr bearer \<longrightarrow>
              requestWithRetry requestOptions s =
                (Inr (Some (Response b)),
                 s1\<lparr>script := rest,
                    sent := sent s1 @ [on_wire [] (token_request (config s)),
                                       on_wire bearer requestOptions],
                    Authorization := bearer\<rparr>))"
proof -
  let ?t = "s1\<lparr>Authorization := []\<rparr>"
  have p1: "retry_pass requestOptions 0 s = (Again 1, ?t)"
    using assms by (rule retry_pass_unauthorized)
  have c: "config s1 = config s"
    using attempt_config [of requestOptions s] assms(1) by simp
  have e: "Authorization ?t = []" "config ?t = config s" "sent ?t = sent s1"
    using c by simp_all
  obtain p s2 where p2: "retry_pass requestOptions 1 ?t = (p, s2)"
    by (cases "retry_pass requestOptions 1 ?t")
  have one: "\<exists>after. sent (snd (retry_pass requestOptions 1 ?t)) =
                  sent s1 @ on_wire [] (token_request (config s)) # after
                \<and> (after = [] \<or> (\<exists>bearer. after = [on_wire bearer requestOptions]))"
    using retry_pass_empty [OF e(1) p2] p2 e(2,3) by auto
  have ok: "requestWithRetry requestOptions s = (Inr (Some response), s2)
              \<and> (\<exists>bearer. bearer \<noteq> [] \<and> Authorization s2 = bearer
                    \<and> sent s2 = sent s1 @ [on_wire [] (token_request (config s)),
                                            on_wire bearer requestOptions])"
    if h: "attempt requestOptions ?t = (Inr response, s2)" for response s2
  proof -
    have "retry_loop requestOptions 0 s = (Inr (Some response), s2)"
      using retry_loop_Again [OF p1] retry_loop_Returned [OF retry_pass_returned [OF h]]
      by (simp add: MAX_RETRIES_def)
    with attempt_empty_Inr [OF e(1) h] e(2,3) show ?thesis
      by (simp add: requestWithRetry_def)
  qed
  have ok': "requestWithRetry requestOptions s =
                (Inr (Some (Response b)),
                 s1\<lparr>script := rest,
                    sent := sent s1 @ [on_wire [] (token_request (config s)),
                                       on_wire bearer requestOptions],
                    Authorization := bearer\<rparr>)"
    if h: "script s1 = Reply tb ## Reply b ## rest" "bearer_of tb = Inr bearer"
    for tb bearer b rest
  proof -
    have "retry_pass requestOptions 1 ?t =
              (Returned (Response b),
               ?t\<lparr>script := stl (stl (script ?t)),
                 sent := sent ?t @ [on_wire [] (token_request (config ?t)),
                                    on_wire bearer requestOptions],
                 Authorization := bearer\<rparr>)"
      by (rule retry_pass_token_Reply [where tb = tb]) (simp_all add: h)
    from retry_loop_Again [OF p1] retry_loop_Returned [OF this] show ?thesis
      unfolding requestWithRetry_def by (simp add: MAX_RETRIES_def h c)
  qed
  show ?thesis
    using p1 one ok ok' by blast
qed

theorem auth_failure_refreshes_token_witness:
  "attempt probe_request
     (example_client []
        [Reply (Object (Some ''one'') None), HttpError 403 ''Forbidden'' None,
         Reply (Object (Some ''two'') None), Reply (Array [1, 2, 3])])
   = (Inl (GaxiosError (Some \<lparr>status = 403, statusText = ''Forbidden'', retry_after = None,
                                config_url = Some (url probe_request)\<rparr>)),
      (example_client ''Bearer one''
         [Reply (Object (Some ''two'') None), Reply (Array [1, 2, 3])])
        \<lparr>sent := [on_wire [] (token_request example_config),
                   on_wire ''Bearer one'' probe_request]\<rparr>)
   \<and> retry_pass probe_request 0
       (example_client []
          [Reply (Object (Some ''one'') None), HttpError 403 ''Forbidden'' None,
           Reply (Object (Some ''two'') None), Reply (Array [1, 2, 3])])
     = (Again 1,
        (example_client [] [Reply (Object (Some ''two'') None), Reply (Array [1, 2, 3])])
          \<lparr>sent := [on_wire [] (token_request example_config),
                     on_wire ''Bearer one'' probe_request]\<rparr>)
   \<and> requestWithRetry probe_request
       (example_client []
          [Reply (Object (Some ''one'') None), HttpError 403 ''Forbidden'' None,
           Reply (Object (Some ''two'') None), Reply (Array [1, 2, 3])])
     = (Inr (Some (Response (Array [1, 2, 3]))),
        (example_client ''Bearer two'' [])
          \<lparr>sent := [on_wire [] (token_request example_config),
                     on_wire ''Bearer one'' probe_request,
                     on_wire [] (token_request example_config),
                     on_wire ''Bearer two'' probe_request]\<rparr>)
   \<and> retry_pass probe_request 0
       (example_client ''Bearer old''
          [HttpError 401 ''Unauthorized'' None, Reply (Object (Some ''new'') None),
           Reply (Array [1, 2, 3])])
     = (Again 1,
        (example_client [] [Reply (Object (Some ''new'') None), Reply (Array [1, 2, 3])])
          \<lparr>sent := [on_wire ''Bearer old'' probe_request]\<rparr>)
   \<and> requestWithRetry probe_request
       (example_client ''Bearer old''
          [HttpError 401 ''Unauthorized'' None, Reply (Object (Some ''new'') None),
           Reply (Array [1, 2, 3])])
     = (Inr (Some (Response (Array [1, 2, 3]))),
        (example_client ''Bearer new'' [])
          \<lparr>sent := [on_wire ''Bearer old'' probe_request,
                     on_wire [] (token_request example_config),
                     on_wire ''Bearer new'' probe_request]\<rparr>)"
proof -
  let ?rest = "sconst (Failure ''socket hang up'' ''FetchError'') :: nat outcome stream"
  let ?fresh = "example_client []
        [Reply (Object (Some ''one'') None), HttpError 403 ''Forbidden'' None,
         Reply (Object (Some ''two'') None), Reply (Array [1, 2, 3])]"
  let ?err = "GaxiosError (Some \<lparr>status = 403, statusText = ''Forbidden'', retry_after = None,
                                config_url = Some (url probe_request)\<rparr>)"
  let ?fresh1 = "(example_client ''Bearer one''
         [Reply (Object (Some ''two'') None), Reply (Array [1, 2, 3])])
        \<lparr>sent := [on_wire [] (token_request example_config),
                   on_wire ''Bearer one'' probe_request]\<rparr>"
  have f1: "attempt probe_request ?fresh = (Inl ?err, ?fresh1)"
    by (simp add: attempt_def getToken_def request_def bearer_of_def example_client_def)
  have f2: "response_status ?err = Some 401 \<or> response_status ?err = Some 403"
    by (simp add: response_status_def)
  have f3: "script ?fresh1 = Reply (Object (Some ''two'') None) ## Reply (Array [1, 2, 3]) ## ?rest
            \<and> bearer_of (Object (Some ''two'') None :: nat body) = Inr ''Bearer two''"
    by (simp add: example_client_def bearer_of_def)
  note t = auth_failure_refreshes_token [OF f1 f2]
  from t have a: "retry_pass probe_request 0 ?fresh = (Again 1, ?fresh1\<lparr>Authorization := []\<rparr>)"
    by blast
  from t f3 have b: "requestWithRetry probe_request ?fresh =
                (Inr (Some (Response (Array [1, 2, 3]))),
                 ?fresh1\<lparr>script := ?rest,
                    sent := sent ?fresh1 @ [on_wire [] (token_request (config ?fresh)),
                                            on_wire ''Bearer two'' probe_request],
                    Authorization := ''Bearer two''\<rparr>)"
    by blast
  let ?held = "example_client ''Bearer old''
             [HttpError 401 ''Unauthorized'' None, Reply (Object (Some ''new'') None),
              Reply (Array [1, 2, 3])]"
  let ?err' = "GaxiosError (Some \<lparr>status = 401, statusText = ''Unauthorized'',
                                 retry_after = None,
                                 config_url = Some (url probe_request)\<rparr>)"
  let ?held1 = "(example_client ''Bearer old''
         [Reply (Object (Some ''new'') None), Reply (Array [1, 2, 3])])
        \<lparr>sent := [on_wire ''Bearer old'' probe_request]\<rparr>"
  have g1: "attempt probe_request ?held = (Inl ?err', ?held1)"
    by (simp add: attempt_def getToken_def request_def example_client_def)
  have g2: "response_status ?err' = Some 401 \<or> response_status ?err' = Some 403"
    by (simp add: response_status_def)
  have g3: "script ?held1 = Reply (Object (Some ''new'') None) ## Reply (Array [1, 2, 3]) ## ?rest
            \<and> bearer_of (Object (Some ''new'') None :: nat body) = Inr ''Bearer new''"
    by (simp add: example_client_def bearer_of_def)
  note u = auth_failure_refreshes_token [OF g1 g2]
  from u have c: "retry_pass probe_request 0 ?held = (Again 1, ?held1\<lparr>Authorization := []\<rparr>)"
    by blast
  from u g3 have d: "requestWithRetry probe_request ?held =
                (Inr (Some (Response (Array [1, 2, 3]))),
                 ?held1\<lparr>script := ?rest,
                    sent := sent ?held1 @ [on_wire [] (token_request (config ?held)),
                                           on_wire ''Bearer new'' probe_request],
                    Authorization := ''Bearer new''\<rparr>)"
    by blast
  have a': "retry_pass probe_request 0 ?fresh
     = (Again 1,
        (example_client [] [Reply (Object (Some ''two'') None), Reply (Array [1, 2, 3])])
          \<lparr>sent := [on_wire [] (token_request example_config),
                     on_wire ''Bearer one'' probe_request]\<rparr>)"
    using a by (simp add: example_client_def)
  have b': "requestWithRetry probe_request ?fresh
     = (Inr (Some (Response (Array [1, 2, 3]))),
        (example_client ''Bearer two'' [])
          \<lparr>sent := [on_wire [] (token_request example_config),
                     on_wire ''Bearer one'' probe_request,
                     on_wire [] (token_request example_config),
                     on_wire ''Bearer two'' probe_request]\<rparr>)"
    using b by (simp add: example_client_def)
  have c': "retry_pass probe_request 0 ?held
     = (Again 1,
        (example_client [] [Reply (Object (Some ''new'') None), Reply (Array [1, 2, 3])])
          \<lparr>sent := [on_wire ''Bearer old'' probe_request]\<rparr>)"
    using c by (simp add: example_client_def)
  have d': "requestWithRetry probe_request ?held
     = (Inr (Some (Response (Array [1, 2, 3]))),
        (example_client ''Bearer new'' [])
          \<lparr>sent := [on_wire ''Bearer old'' probe_request,
                     on_wire [] (token_request example_config),
                     on_wire ''Bearer new'' probe_request]\<rparr>)"
    using d by (simp add: example_client_def)
  from f1 a' b' c' d' show ?thesis by (intro conjI)
qed

text \<open>
  C5: when an attempt fails with status 401 while the retry counter is not zero, the
  loop throws an \<open>IntegrationProviderAuthenticationError\<close> with the status, the status
  text and the endpoint of the call that failed, which is the call issued last, and
  issues no call after it: the state returned is the one the failed attempt left. So
  a request whose first attempt fails with 401 or 403 and whose second attempt, made
  after the token slot was cleared, fails with 401 ends with that error after the
  second attempt, without a third.
\<close>

theorem repeated_401_raises:
  assumes "attempt requestOptions s = (Inl err, s1)"
      and "response_status err = Some 401"
      and "retryCounter \<noteq> 0"
  shows "\<exists>r. err = GaxiosError (Some r)
           \<and> config_url r = Some (msg_url (last (sent s1)))
           \<and> retry_loop requestOptions retryCounter s =
               (Inl (IntegrationProviderAuthenticationError (Some 401) (Some (statusText r))
                       (config_url r)), s1)
           \<and> (\<forall>s0 err0 s0'.
                attempt requestOptions s0 = (Inl err0, s0')
                \<and> (response_status err0 = Some 401 \<or> response_status err0 = Some 403)
                \<and> s = s0'\<lparr>Authorization := []\<rparr> \<longrightarrow>
                requestWithRetry requestOptions s0 =
                  (Inl (IntegrationProviderAuthenticationError (Some 401) (Some (statusText r))
                          (config_url r)), s1))"
proof -
  from assms(2) obtain r where r: "err = GaxiosError (Some r)" "status r = 401"
    by (auto simp: response_status_def split: thrown.splits)
  let ?e = "IntegrationProviderAuthenticationError (Some 401) (Some (statusText r))
              (config_url r)"
  have a: "attempt requestOptions s = (Inl (GaxiosError (Some r)), s1)"
    using assms(1) r(1) by simp
  have p: "retry_pass requestOptions rc s = (Raised ?e, s1)" if "rc \<noteq> 0" for rc
    using a r(2) that by (rule retry_pass_refused)
  have l: "retry_loop requestOptions rc s = (Inl ?e, s1)" if "rc \<noteq> 0" for rc
    using p [OF that] by (rule retry_loop_Raised)
  have f: "requestWithRetry requestOptions s0 = (Inl ?e, s1)"
    if h: "attempt requestOptions s0 = (Inl err0, s0')
           \<and> (response_status err0 = Some 401 \<or> response_status err0 = Some 403)
           \<and> s = s0'\<lparr>Authorization := []\<rparr>" for s0 err0 s0'
  proof -
    have "retry_pass requestOptions 0 s0 = (Again 1, s)"
      using retry_pass_unauthorized [of requestOptions s0 err0 s0'] h by simp
    from retry_loop_Again [OF this] l [of 1] show ?thesis
      by (simp add: requestWithRetry_def MAX_RETRIES_def)
  qed
  show ?thesis
    using r(1) attempt_thrown_url [OF a] l [OF assms(3)] f by blast
qed

theorem repeated_401_raises_witness:
  "attempt probe_request
     (example_client ''Bearer old''
        [HttpError 401 ''Unauthorized'' None, Reply (Object (Some ''new'') None),
         HttpError 401 ''Unauthorized'' None, Reply (Array [1, 2, 3])])
   = (Inl (GaxiosError (Some \<lparr>status = 401, statusText = ''Unauthorized'',
                                retry_after = None,
                                config_url = Some (url probe_request)\<rparr>)),
      (example_client ''Bearer old''
         [Reply (Object (Some ''new'') None), HttpError 401 ''Unauthorized'' None,
          Reply (Array [1, 2, 3])])
        \<lparr>sent := [on_wire ''Bearer old'' probe_request]\<rparr>)
   \<and> attempt probe_request
       ((example_client []
           [Reply (Object (Some ''new'') None), HttpError 401 ''Unauthorized'' None,
            Reply (Array [1, 2, 3])])
          \<lparr>sent := [on_wire ''Bearer old'' probe_request]\<rparr>)
     = (Inl (GaxiosError (Some \<lparr>status = 401, statusText = ''Unauthorized'',
                                  retry_after = None,
                                  config_url = Some (url probe_request)\<rparr>)),
        (example_client ''Bearer new'' [Reply (Array [1, 2, 3])])
          \<lparr>sent := [on_wire ''Bearer old'' probe_request,
                     on_wire [] (token_request example_config),
                     on_wire ''Bearer new'' probe_request]\<rparr>)
   \<and> retry_loop probe_request 1
       ((example_client []
           [Reply (Object (Some ''new'') None), HttpError 401 ''Unauthorized'' None,
            Reply (Array [1, 2, 3])])
          \<lparr>sent := [on_wire ''Bearer old'' probe_request]\<rparr>)
     = (Inl (IntegrationProviderAuthenticationError (Some 401) (Some ''Unauthorized'')
               (Some ''https://api.umbrella.com/deployments/v2/sites?limit=1'')),
        (example_client ''Bearer new'' [Reply (Array [1, 2, 3])])
          \<lparr>sent := [on_wire ''Bearer old'' probe_request,
                     on_wire [] (token_request example_config),
                     on_wire ''Bearer new'' probe_request]\<rparr>)
   \<and> requestWithRetry probe_request
       (example_client ''Bearer old''
          [HttpError 401 ''Unauthorized'' None, Reply (Object (Some ''new'') None),
           HttpError 401 ''Unauthorized'' None, Reply (Array [1, 2, 3])])
     = (Inl (IntegrationProviderAuthenticationError (Some 401) (Some ''Unauthorized'')
               (Some ''https://api.umbrella.com/deployments/v2/sites?limit=1'')),
        (example_client ''Bearer new'' [Reply (Array [1, 2, 3])])
          \<lparr>sent := [on_wire ''Bearer old'' probe_request,
                     on_wire [] (token_request example_config),
                     on_wire ''Bearer new'' probe_request]\<rparr>)"
proof -
  let ?start = "example_client ''Bearer old''
        [HttpError 401 ''Unauthorized'' None, Reply (Object (Some ''new'') None),
         HttpError 401 ''Unauthorized'' None, Reply (Array [1, 2, 3])]"
  let ?err = "GaxiosError (Some \<lparr>status = 401, statusText = ''Unauthorized'',
                                retry_after = None,
                                config_url = Some (url probe_request)\<rparr>)"
  let ?failed = "(example_client ''Bearer old''
         [Reply (Object (Some ''new'') None), HttpError 401 ''Unauthorized'' None,
          Reply (Array [1, 2, 3])])
        \<lparr>sent := [on_wire ''Bearer old'' probe_request]\<rparr>"
  let ?again = "(example_client []
           [Reply (Object (Some ''new'') None), HttpError 401 ''Unauthorized'' None,
            Reply (Array [1, 2, 3])])
          \<lparr>sent := [on_wire ''Bearer old'' probe_request]\<rparr>"
  let ?final = "(example_client ''Bearer new'' [Reply (Array [1, 2, 3])])
          \<lparr>sent := [on_wire ''Bearer old'' probe_request,
                     on_wire [] (token_request example_config),
                     on_wire ''Bearer new'' probe_request]\<rparr>"
  let ?e = "IntegrationProviderAuthenticationError (Some 401) (Some ''Unauthorized'')
               (Some ''https://api.umbrella.com/deployments/v2/sites?limit=1'')"
  have h0: "attempt probe_request ?start = (Inl ?err, ?failed)"
    by (simp add: attempt_def getToken_def request_def example_client_def)
  have h1: "attempt probe_request ?again = (Inl ?err, ?final)"
    by (simp add: attempt_def getToken_def request_def bearer_of_def example_client_def)
  have h2: "response_status ?err = Some 401"
    by (simp add: response_status_def)
  have h3: "(1::nat) \<noteq> 0" by simp
  have h4: "?again = ?failed\<lparr>Authorization := []\<rparr>"
    by (simp add: example_client_def)
  from repeated_401_raises [OF h1 h2 h3] obtain r where
        r: "?err = GaxiosError (Some r)"
    and l: "retry_loop probe_request 1 ?again =
              (Inl (IntegrationProviderAuthenticationError (Some 401) (Some (statusText r))
                      (config_url r)), ?final)"
    and f: "\<forall>s0 err0 s0'.
                attempt probe_request s0 = (Inl err0, s0')
                \<and> (response_status err0 = Some 401 \<or> response_status err0 = Some 403)
                \<and> ?again = s0'\<lparr>Authorization := []\<rparr> \<longrightarrow>
                requestWithRetry probe_request s0 =
                  (Inl (IntegrationProviderAuthenticationError (Some 401) (Some (statusText r))
                          (config_url r)), ?final)"
    by blast
  from r have e: "IntegrationProviderAuthenticationError (Some 401) (Some (statusText r))
                    (config_url r) = ?e"
    by (auto simp: probe_request_def BASE_URL_def)
  from f h0 h2 h4 have "requestWithRetry probe_request ?start =
                  (Inl (IntegrationProviderAuthenticationError (Some 401) (Some (statusText r))
                          (config_url r)), ?final)"
    by blast
  with e have b: "requestWithRetry probe_request ?start = (Inl ?e, ?final)"
    by simp
  from l e have a: "retry_loop probe_request 1 ?again = (Inl ?e, ?final)"
    by simp
  from h0 h1 a b show ?thesis by (intro conjI)
qed

subsection \<open>Classification of fatal errors\<close>

lemma retry_loop_raised_by_attempt:
  "retry_loop opts rc s = (Inl e, s') \<Longrightarrow>
   \<exists>s0 err. attempt opts s0 = (Inl err, s')
     \<and> e = (case err of
              OtherError message name \<Rightarrow> IntegrationError message name
            | GaxiosError r \<Rightarrow>
                createIntegrationError (map_option status r) (map_option statusText r)
                  (Option.bind r config_url))"
proof (induction opts rc s rule: retry_loop.induct)
  case (1 requestOptions retryCounter s)
  obtain p s1 where p: "retry_pass requestOptions retryCounter s = (p, s1)"
    by (cases "retry_pass requestOptions retryCounter s")
  show ?case
  proof (cases p)
    case (Returned response)
    with p "1.prems" show ?thesis
      by (simp add: retry_loop_Returned)
  next
    case (Raised e')
    with p "1.prems" have e: "e' = e" "s1 = s'"
      by (simp_all add: retry_loop_Raised)
    obtain err s2 where a: "attempt requestOptions s = (Inl err, s2)"
      using p Raised
      by (cases "attempt requestOptions s") (auto simp: retry_pass_def split: sum.splits)
    have "s2 = s' \<and> e = (case err of
              OtherError message name \<Rightarrow> IntegrationError message name
            | GaxiosError r \<Rightarrow>
                createIntegrationError (map_option status r) (map_option statusText r)
                  (Option.bind r config_url))"
      using p Raised e a
      by (auto simp: retry_pass_def handle_error_def await_timeout_def Let_def split: if_splits thrown.splits)
    with a show ?thesis by blast
  next
    case (Again retryCounter')
    show ?thesis
    proof (cases "retryCounter' < MAX_RETRIES")
      case True
      with p Again "1.prems" have "retry_loop requestOptions retryCounter' s1 = (Inl e, s')"
        by (simp add: retry_loop_Again)
      from "1.IH" [OF p [symmetric] Again True this] show ?thesis .
    next
      case False
      with p Again "1.prems" show ?thesis
        by (simp add: retry_loop_exhausted)
    qed
  qed
qed

text \<open>
  C9: a failure that the loop does not absorb is thrown classified by what it wraps.
  A \<open>GaxiosError\<close> with a response gives an authentication error for status 401, an
  authorization error for 403 and a provider API error for any other status, each
  with the status, the status text and the endpoint of the failed call, which is the
  call issued last; an exception that is no \<open>GaxiosError\<close> gives the generic
  \<open>IntegrationError\<close> with its message and name. (A \<open>GaxiosError\<close> that has no
  response takes the first of these branches with nothing to read, and gives a
  provider API error of undefined status, text and endpoint.) And every error the
  loop throws is of this kind: it wraps the failure of the attempt made last.
\<close>

theorem fatal_errors_classified:
  assumes "attempt requestOptions s = (Inl err, s1)"
      and "response_status err \<noteq> Some 429"
      and "retryCounter \<noteq> 0
           \<or> (response_status err \<noteq> Some 401 \<and> response_status err \<noteq> Some 403)"
  shows "retry_loop requestOptions retryCounter s =
           (Inl (case err of
                   OtherError message name \<Rightarrow> IntegrationError message name
                 | GaxiosError None \<Rightarrow> IntegrationProviderAPIError None None None
                 | GaxiosError (Some r) \<Rightarrow>
                     if status r = 401
                     then IntegrationProviderAuthenticationError
                            (Some 401) (Some (statusText r)) (config_url r)
                     else if status r = 403
                     then IntegrationProviderAuthorizationError
                            (Some 403) (Some (statusText r)) (config_url r)
                     else IntegrationProviderAPIError
                            (Some (status r)) (Some (statusText r)) (config_url r)), s1)
         \<and> (\<forall>r. err = GaxiosError (Some r)
                \<longrightarrow> config_url r = Some (msg_url (last (sent s1))))
         \<and> (\<forall>s0 counter e s'. retry_loop requestOptions counter s0 = (Inl e, s') \<longrightarrow>
                (\<exists>s2 err'. attempt requestOptions s2 = (Inl err', s')
                   \<and> e = (case err' of
                            OtherError message name \<Rightarrow> IntegrationError message name
                          | GaxiosError r \<Rightarrow>
                              createIntegrationError (map_option status r)
                                (map_option statusText r) (Option.bind r config_url))))"
proof -
  have "retry_pass requestOptions retryCounter s =
          (Raised (case err of
                   OtherError message name \<Rightarrow> IntegrationError message name
                 | GaxiosError None \<Rightarrow> IntegrationProviderAPIError None None None
                 | GaxiosError (Some r) \<Rightarrow>
                     if status r = 401
                     then IntegrationProviderAuthenticationError
                            (Some 401) (Some (statusText r)) (config_url r)
                     else if status r = 403
                     then IntegrationProviderAuthorizationError
                            (Some 403) (Some (statusText r)) (config_url r)
                     else IntegrationProviderAPIError
                            (Some (status r)) (Some (statusText r)) (config_url r)), s1)"
    using assms
    by (auto simp: retry_pass_def handle_error_def await_timeout_def response_status_def
          createIntegrationError_def split: thrown.splits option.splits)
  then have a: "retry_loop requestOptions retryCounter s = (Inl (case err of
                   OtherError message name \<Rightarrow> IntegrationError message name
                 | GaxiosError None \<Rightarrow> IntegrationProviderAPIError None None None
                 | GaxiosError (Some r) \<Rightarrow>
                     if status r = 401
                     then IntegrationProviderAuthenticationError
                            (Some 401) (Some (statusText r)) (config_url r)
                     else if status r = 403
                     then IntegrationProviderAuthorizationError
                            (Some 403) (Some (statusText r)) (config_url r)
                     else IntegrationProviderAPIError
                            (Some (status r)) (Some (statusText r)) (config_url r)), s1)"
    by (rule retry_loop_Raised)
  have b: "\<forall>r. err = GaxiosError (Some r)
                \<longrightarrow> config_url r = Some (msg_url (last (sent s1)))"
    using attempt_thrown_url [of requestOptions s _ s1] assms(1) by auto
  show ?thesis
    using a b retry_loop_raised_by_attempt [of requestOptions] by blast
qed

theorem fatal_errors_classified_witness:
  "attempt probe_request (example_client ''Bearer t'' [HttpError 500 ''Server Error'' None])
   = (Inl (GaxiosError (Some \<lparr>status = 500, statusText = ''Server Error'',
                                retry_after = None,
                                config_url = Some (url probe_request)\<rparr>)),
      (example_client ''Bearer t'' [])\<lparr>sent := [on_wire ''Bearer t'' probe_request]\<rparr>)
   \<and> retry_loop probe_request 0
         (example_client ''Bearer t'' [HttpError 500 ''Server Error'' None])
       = (Inl (IntegrationProviderAPIError (Some 500) (Some ''Server Error'')
                 (Some ''https://api.umbrella.com/deployments/v2/sites?limit=1'')),
          (example_client ''Bearer t'' [])\<lparr>sent := [on_wire ''Bearer t'' probe_request]\<rparr>)
   \<and> msg_url (last (sent ((example_client ''Bearer t'' [])
                              \<lparr>sent := [on_wire ''Bearer t'' probe_request]\<rparr>)))
       = ''https://api.umbrella.com/deployments/v2/sites?limit=1''
   \<and> (\<exists>s2 err'.
         attempt probe_request s2 =
           (Inl err',
            (example_client ''Bearer t'' [])\<lparr>sent := [on_wire ''Bearer t'' probe_request]\<rparr>)
         \<and> IntegrationProviderAPIError (Some 500) (Some ''Server Error'')
                 (Some ''https://api.umbrella.com/deployments/v2/sites?limit=1'')
             = (case err' of
                  OtherError message name \<Rightarrow> IntegrationError message name
                | GaxiosError r \<Rightarrow>
                    createIntegrationError (map_option status r) (map_option statusText r)
                      (Option.bind r config_url)))"
proof -
  let ?s = "example_client ''Bearer t'' [HttpError 500 ''Server Error'' None]"
  let ?err = "GaxiosError (Some \<lparr>status = 500, statusText = ''Server Error'',
                                retry_after = None,
                                config_url = Some (url probe_request)\<rparr>)"
  let ?s1 = "(example_client ''Bearer t'' [])\<lparr>sent := [on_wire ''Bearer t'' probe_request]\<rparr>"
  let ?e = "IntegrationProviderAPIError (Some 500) (Some ''Server Error'')
                 (Some ''https://api.umbrella.com/deployments/v2/sites?limit=1'')"
  have h1: "attempt probe_request ?s = (Inl ?err, ?s1)"
    by (simp add: attempt_def getToken_def request_def example_client_def)
  have h2: "response_status ?err \<noteq> Some 429"
    by (simp add: response_status_def)
  have h3: "(0::nat) \<noteq> 0
           \<or> (response_status ?err \<noteq> Some 401 \<and> response_status ?err \<noteq> Some 403)"
    by (simp add: response_status_def)
  note t = fatal_errors_classified [OF h1 h2 h3]
  have a: "retry_loop probe_request 0 ?s = (Inl ?e, ?s1)"
    using t [THEN conjunct1] by (simp add: probe_request_def BASE_URL_def)
  have b: "msg_url (last (sent ?s1)) = ''https://api.umbrella.com/deployments/v2/sites?limit=1''"
    using t [THEN conjunct2, THEN conjunct1]
    by (simp add: probe_request_def BASE_URL_def)
  have c: "\<exists>s2 err'. attempt probe_request s2 = (Inl err', ?s1)
         \<and> ?e = (case err' of
                  OtherError message name \<Rightarrow> IntegrationError message name
                | GaxiosError r \<Rightarrow>
                    createIntegrationError (map_option status r) (map_option statusText r)
                      (Option.bind r config_url))"
    using t [THEN conjunct2, THEN conjunct2] a by blast
  from h1 a b c show ?thesis by (intro conjI)
qed

subsection \<open>Exhausted retries\<close>

text \<open>
  Three attempts in a row that fail with status 429 use up the retry budget, whatever
  the token slot held before them and whichever call of an attempt was answered so:
  \<open>requestWithRetry\<close> returns \<open>undefined\<close> in the state the third timer leaves. An
  iterator whose page request returns \<open>undefined\<close> returns normally there, the state
  of the iteratee as it was.
\<close>

lemma three_rate_limits_exhaust:
  assumes "attempt opts s = (Inl e1, s1)" and "response_status e1 = Some 429"
      and "attempt opts (await_timeout (sleep_time (response_retry_after e1)) s1) = (Inl e2, s2)"
      and "response_status e2 = Some 429"
      and "attempt opts (await_timeout (sleep_time (response_retry_after e2)) s2) = (Inl e3, s3)"
      and "response_status e3 = Some 429"
  shows "requestWithRetry opts s =
           (Inr None, await_timeout (sleep_time (response_retry_after e3)) s3)"
proof -
  let ?t1 = "await_timeout (sleep_time (response_retry_after e1)) s1"
  let ?t2 = "await_timeout (sleep_time (response_retry_after e2)) s2"
  let ?t3 = "await_timeout (sleep_time (response_retry_after e3)) s3"
  have p1: "retry_pass opts 0 s = (Again 1, ?t1)"
    using retry_pass_rate_limited [OF assms(1,2) refl, of 0] by simp
  have p2: "retry_pass opts 1 ?t1 = (Again 2, ?t2)"
    using retry_pass_rate_limited [OF assms(3,4) refl, of 1] by simp
  have p3: "retry_pass opts 2 ?t2 = (Again 3, ?t3)"
    using retry_pass_rate_limited [OF assms(5,6) refl, of 2] by simp
  have "retry_loop opts 0 s = retry_loop opts 1 ?t1"
    by (rule retry_loop_Again [OF p1]) (simp add: MAX_RETRIES_def)
  also have "\<dots> = retry_loop opts 2 ?t2"
    by (rule retry_loop_Again [OF p2]) (simp add: MAX_RETRIES_def)
  also have "\<dots> = (Inr None, ?t3)"
    by (rule retry_loop_exhausted [OF p3]) (simp add: MAX_RETRIES_def)
  finally show ?thesis
    by (simp add: requestWithRetry_def)
qed

lemma undefined_response_ends_iteration:
  assumes "requestWithRetry (page_request requestUrl page) s = (Inr None, s')"
  shows "requestIterator_loop requestUrl iteratee page c s = Some (Inr (), c, s')"
    and "requestIteratorWithNestedData_loop requestUrl iteratee page c s = Some (Inr (), c, s')"
proof -
  show "requestIterator_loop requestUrl iteratee page c s = Some (Inr (), c, s')"
    by (subst requestIterator_loop.simps) (simp add: assms flat_items_def)
  show "requestIteratorWithNestedData_loop requestUrl iteratee page c s = Some (Inr (), c, s')"
    by (subst requestIteratorWithNestedData_loop.simps) (simp add: assms nested_items_def)
qed

text \<open>
  C2: three 429 replies in a row use up the retry budget: \<open>requestWithRetry\<close> returns
  \<open>undefined\<close> and throws nothing, after three calls and three sleeps. An iterator
  whose page request ends so returns normally there, with no call of the iteratee and
  no further request, which is the result it gives for an empty page at the end of
  the data.
\<close>

theorem exhausted_retries_end_pagination:
  assumes "script s =
             HttpError 429 t1 r1 ## HttpError 429 t2 r2 ## HttpError 429 t3 r3 ## rest"
      and "s' = s\<lparr>script := rest,
                   sent := sent s @ replicate 3
                     (on_wire (Authorization s) (first_request s (page_request requestUrl page))),
                   slept := slept s @
                     map (\<lambda>header. timer_delay (sleep_time header)) [r1, r2, r3]\<rparr>"
  shows "requestWithRetry (page_request requestUrl page) s = (Inr None, s')
         \<and> requestIterator_loop requestUrl iteratee page c s = Some (Inr (), c, s')
         \<and> requestIteratorWithNestedData_loop requestUrl iteratee page c s = Some (Inr (), c, s')
         \<and> (Authorization s \<noteq> [] \<longrightarrow>
              requestIterator_loop requestUrl iteratee page c
                  (s\<lparr>script := Reply (Array []) ## rest\<rparr>)
                = Some (Inr (), c,
                    s\<lparr>script := rest,
                      sent := sent s @ [on_wire (Authorization s) (page_request requestUrl page)]\<rparr>)
              \<and> requestIteratorWithNestedData_loop requestUrl iteratee page c
                  (s\<lparr>script := Reply (Object None (Some [])) ## rest\<rparr>)
                = Some (Inr (), c,
                    s\<lparr>script := rest,
                      sent := sent s @ [on_wire (Authorization s) (page_request requestUrl page)]\<rparr>))"
proof -
  have r: "requestWithRetry (page_request requestUrl page) s = (Inr None, s')"
    using three_429_exhaust [OF assms(1)] assms(2) by simp
  have f: "requestIterator_loop requestUrl iteratee page c s = Some (Inr (), c, s')"
    by (subst requestIterator_loop.simps) (simp add: r flat_items_def)
  have n: "requestIteratorWithNestedData_loop requestUrl iteratee page c s = Some (Inr (), c, s')"
    by (subst requestIteratorWithNestedData_loop.simps) (simp add: r nested_items_def)
  have e: "requestIterator_loop requestUrl iteratee page c
                  (s\<lparr>script := Reply (Array []) ## rest\<rparr>)
                = Some (Inr (), c,
                    s\<lparr>script := rest,
                      sent := sent s @ [on_wire (Authorization s) (page_request requestUrl page)]\<rparr>)"
    if "Authorization s \<noteq> []"
    using that
    by (subst requestIterator_loop.simps)
       (simp add: requestWithRetry_Reply [where b = "Array []"] flat_items_def)
  have e': "requestIteratorWithNestedData_loop requestUrl iteratee page c
                  (s\<lparr>script := Reply (Object None (Some [])) ## rest\<rparr>)
                = Some (Inr (), c,
                    s\<lparr>script := rest,
                      sent := sent s @ [on_wire (Authorization s) (page_request requestUrl page)]\<rparr>)"
    if "Authorization s \<noteq> []"
    using that
    by (subst requestIteratorWithNestedData_loop.simps)
       (simp add: requestWithRetry_Reply [where b = "Object None (Some [])"] nested_items_def
          PAGE_SIZE_def)
  show ?thesis using r f n e e' by simp
qed

theorem exhausted_retries_end_pagination_witness:
  "requestWithRetry (page_request ''/admin/v2/users'' 1)
     (example_client ''Bearer t''
        [HttpError 429 ''Too Many Requests'' None, HttpError 429 ''Too Many Requests'' (Some ''1''),
         HttpError 429 ''Too Many Requests'' None])
   = (Inr None,
      (example_client ''Bearer t'' [])
        \<lparr>sent := replicate 3 (on_wire ''Bearer t'' (page_request ''/admin/v2/users'' 1)),
          slept := [Number 5000, Number 1000, Number 5000]\<rparr>)
   \<and> requestIterator ''/admin/v2/users'' collect []
       (example_client ''Bearer t''
          [HttpError 429 ''Too Many Requests'' None, HttpError 429 ''Too Many Requests'' (Some ''1''),
           HttpError 429 ''Too Many Requests'' None])
     = Some (Inr (), [],
         (example_client ''Bearer t'' [])
           \<lparr>sent := replicate 3 (on_wire ''Bearer t'' (page_request ''/admin/v2/users'' 1)),
             slept := [Number 5000, Number 1000, Number 5000]\<rparr>)
   \<and> requestIterator ''/admin/v2/users'' collect [] (example_client ''Bearer t'' [Reply (Array [])])
     = Some (Inr (), [],
         (example_client ''Bearer t'' [])
           \<lparr>sent := [on_wire ''Bearer t'' (page_request ''/admin/v2/users'' 1)]\<rparr>)"
proof -
  let ?s = "example_client ''Bearer t''
        [HttpError 429 ''Too Many Requests'' None, HttpError 429 ''Too Many Requests'' (Some ''1''),
         HttpError 429 ''Too Many Requests'' None]"
  let ?rest = "sconst (Failure ''socket hang up'' ''FetchError'') :: nat outcome stream"
  let ?s' = "?s\<lparr>script := ?rest,
                   sent := sent ?s @ replicate 3
                     (on_wire (Authorization ?s) (first_request ?s (page_request ''/admin/v2/users'' 1))),
                   slept := slept ?s @
                     map (\<lambda>header. timer_delay (sleep_time header)) [None, Some ''1'', None]\<rparr>"
  have h1: "script ?s = HttpError 429 ''Too Many Requests'' None
              ## HttpError 429 ''Too Many Requests'' (Some ''1'')
              ## HttpError 429 ''Too Many Requests'' None ## ?rest"
    by (simp add: example_client_def)
  have h2: "Authorization ?s \<noteq> []"
    by (simp add: example_client_def)
  show ?thesis
    using exhausted_retries_end_pagination
            [OF h1 refl, of "''/admin/v2/users''" 1 collect "[]"] h2
    by (simp add: requestIterator_def example_client_def first_request_def
          RATE_LIMIT_SLEEP_TIME_def delay_defs)
qed

subsection \<open>Verification of the credentials\<close>

text \<open>
  C10, as the code has it: \<open>verifyAuthentication\<close> returns normally whenever
  \<open>requestWithRetry\<close> does not throw, also when that yields no response because the
  retry budget is used up, and it throws exactly what \<open>requestWithRetry\<close> throws; so a
  provider that keeps answering 429 passes the verification. A provider that cannot
  be reached does not: a first call that fails without a response is thrown as an
  \<open>IntegrationError\<close>.
\<close>

theorem verification_ignores_exhaustion:
  "(\<forall>response s1. requestWithRetry probe_request s = (Inr response, s1)
        \<longrightarrow> verifyAuthentication s = (Inr (), s1))
   \<and> (\<forall>e s1. requestWithRetry probe_request s = (Inl e, s1)
        \<longrightarrow> verifyAuthentication s = (Inl e, s1))
   \<and> (\<forall>t1 r1 t2 r2 t3 r3 rest.
        script s = HttpError 429 t1 r1 ## HttpError 429 t2 r2 ## HttpError 429 t3 r3 ## rest
        \<longrightarrow> fst (requestWithRetry probe_request s) = Inr None
            \<and> fst (verifyAuthentication s) = Inr ())
   \<and> (\<forall>message name. shd (script s) = Failure message name
        \<longrightarrow> fst (verifyAuthentication s) = Inl (IntegrationError message name))"
proof -
  have x: "fst (requestWithRetry probe_request s) = Inr None
        \<and> fst (verifyAuthentication s) = Inr ()"
    if "script s = HttpError 429 t1 r1 ## HttpError 429 t2 r2 ## HttpError 429 t3 r3 ## rest"
    for t1 r1 t2 r2 t3 r3 rest
    using three_429_exhaust [OF that, of probe_request]
    by (simp add: verifyAuthentication_def)
  have y: "fst (verifyAuthentication s) = Inl (IntegrationError message name)"
    if "shd (script s) = Failure message name" for message name
  proof -
    have "retry_pass probe_request 0 s =
            (Raised (IntegrationError message name),
             s\<lparr>script := stl (script s),
               sent := sent s @ [on_wire (Authorization s) (first_request s probe_request)]\<rparr>)"
      by (simp add: retry_pass_def attempt_Failure [OF that] handle_error_def
            response_status_def)
    then show ?thesis
      by (simp add: verifyAuthentication_def requestWithRetry_def retry_loop_Raised)
  qed
  have z: "(\<forall>response s1. requestWithRetry probe_request s = (Inr response, s1)
              \<longrightarrow> verifyAuthentication s = (Inr (), s1))
           \<and> (\<forall>e s1. requestWithRetry probe_request s = (Inl e, s1)
              \<longrightarrow> verifyAuthentication s = (Inl e, s1))"
    by (auto simp: verifyAuthentication_def split: option.splits)
  from x y z show ?thesis
    by blast
qed

theorem verification_ignores_exhaustion_witness:
  "requestWithRetry probe_request
     (example_client []
        [HttpError 429 ''Too Many Requests'' None, HttpError 429 ''Too Many Requests'' None,
         HttpError 429 ''Too Many Requests'' None])
   = (Inr None,
      (example_client [] [])
        \<lparr>sent := replicate 3 (on_wire [] (token_request example_config)),
          slept := [Number 5000, Number 5000, Number 5000]\<rparr>)
   \<and> verifyAuthentication
       (example_client []
          [HttpError 429 ''Too Many Requests'' None, HttpError 429 ''Too Many Requests'' None,
           HttpError 429 ''Too Many Requests'' None])
     = (Inr (),
        (example_client [] [])
          \<lparr>sent := replicate 3 (on_wire [] (token_request example_config)),
            slept := [Number 5000, Number 5000, Number 5000]\<rparr>)
   \<and> fst (verifyAuthentication
       (example_client []
          [HttpError 429 ''Too Many Requests'' None, HttpError 429 ''Too Many Requests'' None,
           HttpError 429 ''Too Many Requests'' None])) = Inr ()
   \<and> requestWithRetry probe_request
       (example_client ''Bearer t'' [HttpError 500 ''Server Error'' None])
     = (Inl (IntegrationProviderAPIError (Some 500) (Some ''Server Error'')
               (Some (url probe_request))),
        (example_client ''Bearer t'' [])\<lparr>sent := [on_wire ''Bearer t'' probe_request]\<rparr>)
   \<and> verifyAuthentication (example_client ''Bearer t'' [HttpError 500 ''Server Error'' None])
     = (Inl (IntegrationProviderAPIError (Some 500) (Some ''Server Error'')
               (Some (url probe_request))),
        (example_client ''Bearer t'' [])\<lparr>sent := [on_wire ''Bearer t'' probe_request]\<rparr>)
   \<and> fst (verifyAuthentication (example_client [] [Failure ''network timeout'' ''FetchError'']))
     = Inl (IntegrationError ''network timeout'' ''FetchError'')"
proof -
  let ?limited = "example_client []
        [HttpError 429 ''Too Many Requests'' None, HttpError 429 ''Too Many Requests'' None,
         HttpError 429 ''Too Many Requests'' None] :: nat client"
  let ?limited' = "(example_client [] [])
        \<lparr>sent := replicate 3 (on_wire [] (token_request example_config)),
          slept := [Number 5000, Number 5000, Number 5000]\<rparr> :: nat client"
  let ?broken = "example_client ''Bearer t'' [HttpError 500 ''Server Error'' None] :: nat client"
  let ?broken' = "(example_client ''Bearer t'' [])
        \<lparr>sent := [on_wire ''Bearer t'' probe_request]\<rparr> :: nat client"
  let ?e = "IntegrationProviderAPIError (Some 500) (Some ''Server Error'')
               (Some (url probe_request))"
  have a: "requestWithRetry probe_request ?limited = (Inr None, ?limited')"
    using three_429_exhaust
      [of ?limited "''Too Many Requests''" None "''Too Many Requests''" None
          "''Too Many Requests''" None "sconst (Failure ''socket hang up'' ''FetchError'')"
          probe_request]
    by (simp add: example_client_def first_request_def RATE_LIMIT_SLEEP_TIME_def delay_defs)
  have "retry_pass probe_request 0 ?broken = (Raised ?e, ?broken')"
    by (simp add: retry_pass_def attempt_def getToken_def request_def handle_error_def await_timeout_def
          response_status_def createIntegrationError_def example_client_def)
  then have b: "requestWithRetry probe_request ?broken = (Inl ?e, ?broken')"
    unfolding requestWithRetry_def by (rule retry_loop_Raised)
  from a verification_ignores_exhaustion [of ?limited]
  have c: "verifyAuthentication ?limited = (Inr (), ?limited')" by blast
  from b verification_ignores_exhaustion [of ?broken]
  have d: "verifyAuthentication ?broken = (Inl ?e, ?broken')" by blast
  have "script ?limited =
          HttpError 429 ''Too Many Requests'' None ## HttpError 429 ''Too Many Requests'' None
            ## HttpError 429 ''Too Many Requests'' None
            ## sconst (Failure ''socket hang up'' ''FetchError'')"
    by (simp add: example_client_def)
  with verification_ignores_exhaustion [of ?limited]
  have e: "fst (verifyAuthentication ?limited) = Inr ()" by blast
  let ?down = "example_client [] [Failure ''network timeout'' ''FetchError''] :: nat client"
  have "shd (script ?down) = Failure ''network timeout'' ''FetchError''"
    by (simp add: example_client_def)
  with verification_ignores_exhaustion [of ?down]
  have f: "fst (verifyAuthentication ?down)
             = Inl (IntegrationError ''network timeout'' ''FetchError'')" by blast
  from a c e b d f show ?thesis by (intro conjI)
qed

text \<open>
  C10 as the specification words it does not hold of a provider that cannot be
  reached: a call that fails without a response is thrown, on a fresh client by the
  credential exchange and on a client with a token by the probe itself. (Were the
  failure to come wrapped in a \<open>GaxiosError\<close> without a response, the \<open>catch\<close> block
  would throw as well, a provider API error.)
\<close>

theorem verification_unreachable_counterexample:
  "fst (verifyAuthentication (example_client [] [Failure ''connect ECONNREFUSED'' ''FetchError'']))
     = Inl (IntegrationError ''connect ECONNREFUSED'' ''FetchError'')
   \<and> fst (verifyAuthentication
            (example_client ''Bearer t'' [Failure ''connect ECONNREFUSED'' ''FetchError'']))
     = Inl (IntegrationError ''connect ECONNREFUSED'' ''FetchError'')
   \<and> fst (handle_error (GaxiosError None) 0 (example_client ''Bearer t'' []))
     = Raised (IntegrationProviderAPIError None None None)"
proof -
  have "retry_pass probe_request 0
          (example_client auth [Failure ''connect ECONNREFUSED'' ''FetchError''])
        = (Raised (IntegrationError ''connect ECONNREFUSED'' ''FetchError''),
           (example_client auth [])
             \<lparr>sent := [on_wire auth
                (first_request
                   (example_client auth [Failure ''connect ECONNREFUSED'' ''FetchError''])
                   probe_request)]\<rparr>)" for auth
    by (simp add: retry_pass_def attempt_Failure handle_error_def await_timeout_def response_status_def
          example_client_def)
  moreover have "fst (handle_error (GaxiosError None) 0 (example_client ''Bearer t'' []))
        = Raised (IntegrationProviderAPIError None None None)"
    by (simp add: handle_error_def await_timeout_def response_status_def createIntegrationError_def)
  ultimately show ?thesis
    by (simp add: verifyAuthentication_def requestWithRetry_def retry_loop_Raised)
qed

subsection \<open>The token on the wire\<close>

text \<open>
  A request whose \<open>headers\<close> are an object of its own goes out with the entries of
  that object, whatever token \<open>getToken\<close> has ensured before it.
\<close>

lemma own_headers_sent_unchanged:
  assumes "headers requestOptions = OtherHeaders entries"
      and "getToken s = (Inr token, s1)"
  shows "sent (snd (attempt requestOptions s)) =
           sent s1 @ [\<lparr>msg_method = method requestOptions, msg_url = url requestOptions,
                       msg_headers = entries, msg_data = data requestOptions\<rparr>]"
  using assms
  by (simp add: attempt_def request_def Let_def on_wire_def header_entries_def
        split: outcome.splits)

text \<open>
  C3, as the code has it: every pass of the retry loop first ensures a token with
  \<open>getToken\<close>, and issues the request only when that succeeds. The routine does not
  itself write the token into the request: the request carries it when its \<open>headers\<close>
  are the client's own headers object, as in every request the client builds. Then
  each call goes out under the token just ensured, and after a 401 or 403 on the first
  call the retried call carries the token newly acquired.
\<close>

theorem token_attached_through_shared_headers:
  assumes "headers requestOptions = ThisHeaders"
  shows "(\<forall>token s1. getToken s = (Inr token, s1) \<longrightarrow>
            token \<noteq> [] \<and> Authorization s1 = token
            \<and> attempt requestOptions s = request requestOptions s1
            \<and> sent (snd (attempt requestOptions s)) =
                sent s1 @ [\<lparr>msg_method = method requestOptions, msg_url = url requestOptions,
                            msg_headers = [(''Content-Type'', ''application/json''),
                                           (''Authorization'', token)],
                            msg_data = data requestOptions\<rparr>])
         \<and> (\<forall>err s1. getToken s = (Inl err, s1) \<longrightarrow>
                attempt requestOptions s = (Inl err, s1))
         \<and> (\<forall>st reason ra tb bearer rest.
              Authorization s \<noteq> []
              \<and> script s = HttpError st reason ra ## Reply tb ## rest
              \<and> (st = 401 \<or> st = 403) \<and> bearer_of tb = Inr bearer \<longrightarrow>
              sent (snd (retry_pass requestOptions 1 (snd (retry_pass requestOptions 0 s)))) =
                sent s @
                [\<lparr>msg_method = method requestOptions, msg_url = url requestOptions,
                   msg_headers = [(''Content-Type'', ''application/json''),
                                  (''Authorization'', Authorization s)],
                   msg_data = data requestOptions\<rparr>,
                 on_wire [] (token_request (config s)),
                 \<lparr>msg_method = method requestOptions, msg_url = url requestOptions,
                   msg_headers = [(''Content-Type'', ''application/json''),
                                  (''Authorization'', bearer)],
                   msg_data = data requestOptions\<rparr>])"
proof -
  have w: "on_wire auth requestOptions =
             \<lparr>msg_method = method requestOptions, msg_url = url requestOptions,
              msg_headers = [(''Content-Type'', ''application/json''), (''Authorization'', auth)],
              msg_data = data requestOptions\<rparr>" for auth
    using assms by (simp add: on_wire_def header_entries_def)
  have a: "token \<noteq> [] \<and> Authorization s1 = token
            \<and> attempt requestOptions s = request requestOptions s1
            \<and> sent (snd (attempt requestOptions s)) = sent s1 @ [on_wire token requestOptions]"
    if "getToken s = (Inr token, s1)" for token s1
  proof -
    have t: "token \<noteq> [] \<and> Authorization s1 = token"
      using that
      by (auto simp: getToken_def bearer_of_def
               split: if_splits prod.splits sum.splits body.splits option.splits)
    have "attempt requestOptions s = request requestOptions s1"
      using that by (simp add: attempt_def)
    moreover have "sent (snd (request requestOptions s1)) = sent s1 @ [on_wire token requestOptions]"
      using t by (simp add: request_def Let_def split: outcome.splits)
    ultimately show ?thesis using t by simp
  qed
  have b: "attempt requestOptions s = (Inl err, s1)" if "getToken s = (Inl err, s1)" for err s1
    using that by (simp add: attempt_def)
  have c: "sent (snd (retry_pass requestOptions 1 (snd (retry_pass requestOptions 0 s)))) =
             sent s @ [on_wire (Authorization s) requestOptions,
                       on_wire [] (token_request (config s)),
                       on_wire bearer requestOptions]"
    if h: "Authorization s \<noteq> []" "script s = HttpError st reason ra ## Reply tb ## rest"
       "st = 401 \<or> st = 403" "bearer_of tb = Inr bearer"
    for st reason ra tb bearer rest
  proof -
    let ?s1 = "s\<lparr>script := Reply tb ## rest,
                 sent := sent s @ [on_wire (Authorization s) requestOptions],
                 Authorization := []\<rparr>"
    have p1: "retry_pass requestOptions 0 s = (Again 1, ?s1)"
      using retry_pass_auth [of s st reason ra requestOptions] h(1-3)
      by (simp add: first_request_def)
    have "attempt requestOptions ?s1 =
            request requestOptions
              (?s1\<lparr>script := stl (script ?s1),
                     sent := sent ?s1 @ [on_wire [] (token_request (config ?s1))],
                     Authorization := bearer\<rparr>)"
      by (rule attempt_token [where tb = tb]) (simp_all add: h(4))
    then have "sent (snd (attempt requestOptions ?s1)) =
            sent s @ [on_wire (Authorization s) requestOptions,
                      on_wire [] (token_request (config s)),
                      on_wire bearer requestOptions]"
      by (simp add: request_def Let_def split: outcome.splits)
    moreover have "sent (snd (retry_pass requestOptions 1 ?s1)) =
                     sent (snd (attempt requestOptions ?s1))"
      by (rule retry_pass_sent)
    ultimately show ?thesis using p1 by simp
  qed
  show ?thesis
    using a b c unfolding w by blast
qed

theorem token_attached_through_shared_headers_witness:
  "headers probe_request = ThisHeaders
   \<and> getToken (example_client [] [Reply (Object (Some ''new'') None), Reply (Array [1, 2, 3])])
       = (Inr ''Bearer new'',
          (example_client ''Bearer new'' [Reply (Array [1, 2, 3])])
            \<lparr>sent := [on_wire [] (token_request example_config)]\<rparr>)
   \<and> map msg_headers
         (sent (snd (attempt probe_request
            (example_client [] [Reply (Object (Some ''new'') None), Reply (Array [1, 2, 3])]))))
       = [msg_headers (on_wire [] (token_request example_config)),
          [(''Content-Type'', ''application/json''), (''Authorization'', ''Bearer new'')]]
   \<and> getToken (example_client [] [HttpError 500 ''Server Error'' None])
       = (Inl (GaxiosError (Some \<lparr>status = 500, statusText = ''Server Error'',
                                    retry_after = None,
                                    config_url = Some (url (token_request example_config))\<rparr>)),
          (example_client [] [])\<lparr>sent := [on_wire [] (token_request example_config)]\<rparr>)
   \<and> sent (snd (attempt probe_request (example_client [] [HttpError 500 ''Server Error'' None])))
       = [on_wire [] (token_request example_config)]
   \<and> map msg_headers
         (sent (snd (retry_pass probe_request 1 (snd (retry_pass probe_request 0
            (example_client ''Bearer old''
               [HttpError 401 ''Unauthorized'' None, Reply (Object (Some ''new'') None),
                Reply (Array [1, 2, 3])]))))))
       = [[(''Content-Type'', ''application/json''), (''Authorization'', ''Bearer old'')],
          msg_headers (on_wire [] (token_request example_config)),
          [(''Content-Type'', ''application/json''), (''Authorization'', ''Bearer new'')]]"
proof -
  let ?fresh = "example_client [] [Reply (Object (Some ''new'') None), Reply (Array [1, 2, 3])]"
  let ?fresh1 = "(example_client ''Bearer new'' [Reply (Array [1, 2, 3])])
            \<lparr>sent := [on_wire [] (token_request example_config)]\<rparr>"
  let ?down = "example_client [] [HttpError 500 ''Server Error'' None] :: nat client"
  let ?err = "GaxiosError (Some \<lparr>status = 500, statusText = ''Server Error'',
                                    retry_after = None,
                                    config_url = Some (url (token_request example_config))\<rparr>)"
  let ?down1 = "(example_client [] [])\<lparr>sent := [on_wire [] (token_request example_config)]\<rparr>
                  :: nat client"
  let ?stale = "example_client ''Bearer old''
               [HttpError 401 ''Unauthorized'' None, Reply (Object (Some ''new'') None),
                Reply (Array [1, 2, 3])]"
  have h: "headers probe_request = ThisHeaders"
    by (simp add: probe_request_def)
  have g1: "getToken ?fresh = (Inr ''Bearer new'', ?fresh1)"
    by (simp add: getToken_def request_def bearer_of_def example_client_def)
  have g2: "getToken ?down = (Inl ?err, ?down1)"
    by (simp add: getToken_def request_def example_client_def)
  have g3: "Authorization ?stale \<noteq> []
            \<and> script ?stale = HttpError 401 ''Unauthorized'' None ## Reply (Object (Some ''new'') None)
                 ## (Reply (Array [1, 2, 3]) ## sconst (Failure ''socket hang up'' ''FetchError''))
            \<and> ((401::nat) = 401 \<or> (401::nat) = 403)
            \<and> bearer_of (Object (Some ''new'') None :: nat body) = Inr ''Bearer new''"
    by (simp add: example_client_def bearer_of_def)
  note t1 = token_attached_through_shared_headers [OF h, of ?fresh]
  note t2 = token_attached_through_shared_headers [OF h, of ?down]
  note t3 = token_attached_through_shared_headers [OF h, of ?stale]
  from t1 g1 have a: "sent (snd (attempt probe_request ?fresh)) =
      sent ?fresh1 @ [\<lparr>msg_method = method probe_request, msg_url = url probe_request,
                            msg_headers = [(''Content-Type'', ''application/json''),
                                           (''Authorization'', ''Bearer new'')],
                            msg_data = data probe_request\<rparr>]"
    by blast
  from t2 g2 have b: "attempt probe_request ?down = (Inl ?err, ?down1)"
    by blast
  from t3 g3 have c: "sent (snd (retry_pass probe_request 1 (snd (retry_pass probe_request 0 ?stale)))) =
                sent ?stale @
                [\<lparr>msg_method = method probe_request, msg_url = url probe_request,
                   msg_headers = [(''Content-Type'', ''application/json''),
                                  (''Authorization'', Authorization ?stale)],
                   msg_data = data probe_request\<rparr>,
                 on_wire [] (token_request (config ?stale)),
                 \<lparr>msg_method = method probe_request, msg_url = url probe_request,
                   msg_headers = [(''Content-Type'', ''application/json''),
                                  (''Authorization'', ''Bearer new'')],
                   msg_data = data probe_request\<rparr>]"
    by blast
  show ?thesis
    using h g1 g2 a b c by (simp add: example_client_def)
qed

text \<open>
  C3 as the specification words it does not hold of a request spec with a headers
  object of its own: the retried call goes out with what that object holds, here the
  stale token, while the slot holds the new one.
\<close>

theorem token_not_attached_counterexample:
  "msg_headers (last (sent (snd (requestWithRetry
       (probe_request\<lparr>headers := OtherHeaders [(''Authorization'', ''Bearer old'')]\<rparr>)
       (example_client ''Bearer old''
          [HttpError 401 ''Unauthorized'' None, Reply (Object (Some ''new'') None),
           Reply (Array [1, 2, 3])])))))
     = [(''Authorization'', ''Bearer old'')]
   \<and> Authorization (snd (requestWithRetry
       (probe_request\<lparr>headers := OtherHeaders [(''Authorization'', ''Bearer old'')]\<rparr>)
       (example_client ''Bearer old''
          [HttpError 401 ''Unauthorized'' None, Reply (Object (Some ''new'') None),
           Reply (Array [1, 2, 3])])))
     = ''Bearer new''
   \<and> fst (requestWithRetry
       (probe_request\<lparr>headers := OtherHeaders [(''Authorization'', ''Bearer old'')]\<rparr>)
       (example_client ''Bearer old''
          [HttpError 401 ''Unauthorized'' None, Reply (Object (Some ''new'') None),
           Reply (Array [1, 2, 3])]))
     = Inr (Some (Response (Array [1, 2, 3])))"
proof -
  let ?opts = "probe_request\<lparr>headers := OtherHeaders [(''Authorization'', ''Bearer old'')]\<rparr>"
  let ?s = "example_client ''Bearer old''
          [HttpError 401 ''Unauthorized'' None, Reply (Object (Some ''new'') None),
           Reply (Array [1, 2, 3])]"
  let ?s1 = "(example_client [] [Reply (Object (Some ''new'') None), Reply (Array [1, 2, 3])])
               \<lparr>sent := [on_wire ''Bearer old'' ?opts]\<rparr>"
  let ?s2 = "(example_client ''Bearer new'' [])
               \<lparr>sent := [on_wire ''Bearer old'' ?opts, on_wire [] (token_request example_config),
                          on_wire ''Bearer new'' ?opts]\<rparr>"
  have p1: "retry_pass ?opts 0 ?s = (Again 1, ?s1)"
    using retry_pass_auth [of ?s 401 "''Unauthorized''" None ?opts]
    by (simp add: example_client_def first_request_def)
  have p2: "retry_pass ?opts 1 ?s1 = (Returned (Response (Array [1, 2, 3])), ?s2)"
    using retry_pass_token_Reply
      [of ?s1 "Object (Some ''new'') None" "''Bearer new''" "Array [1, 2, 3]" ?opts 1]
    by (simp add: example_client_def bearer_of_def)
  have "requestWithRetry ?opts ?s = (Inr (Some (Response (Array [1, 2, 3]))), ?s2)"
    unfolding requestWithRetry_def
    using retry_loop_Again [OF p1] retry_loop_Returned [OF p2] by (simp add: MAX_RETRIES_def)
  then show ?thesis
    by (simp add: on_wire_def header_entries_def example_client_def)
qed

subsection \<open>Pagination\<close>

lemma for_each_total:
  "for_each (\<lambda>item c. Inr (g item c)) items c = (Inr (), fold g items c)"
  by (induction items arbitrary: c) simp_all

lemma fold_collect: "fold (\<lambda>item c. c @ [item]) items c = c @ items"
  by (induction items arbitrary: c) simp_all

lemma flat_pages:
  assumes "\<forall>p\<in>set full. length p = PAGE_SIZE"
      and "length lastp \<noteq> PAGE_SIZE"
      and "Authorization s \<noteq> []"
      and "script s = map (\<lambda>p. Reply (Array p)) (full @ [lastp]) @- rest"
  shows "requestIterator_loop requestUrl (\<lambda>item c. Inr (g item c)) page c s =
           Some (Inr (), fold g (concat (full @ [lastp])) c,
                 s\<lparr>script := rest,
                   sent := sent s @
                     map (\<lambda>i. on_wire (Authorization s) (page_request requestUrl i))
                       [page ..< page + length full + 1]\<rparr>)"
  using assms
proof (induction full arbitrary: page c s)
  case Nil
  then have r: "requestWithRetry (page_request requestUrl page) s =
           (Inr (Some (Response (Array lastp))),
            s\<lparr>script := rest,
              sent := sent s @ [on_wire (Authorization s) (page_request requestUrl page)]\<rparr>)"
    using requestWithRetry_Reply [of s "Array lastp" "page_request requestUrl page"] by simp
  show ?case
    using Nil.prems(2)
    by (subst requestIterator_loop.simps) (simp add: r flat_items_def for_each_total)
next
  case (Cons p ps)
  let ?s1 = "s\<lparr>script := map (\<lambda>p. Reply (Array p)) (ps @ [lastp]) @- rest,
               sent := sent s @ [on_wire (Authorization s) (page_request requestUrl page)]\<rparr>"
  have len: "length p = PAGE_SIZE" using Cons.prems(1) by simp
  have r: "requestWithRetry (page_request requestUrl page) s = (Inr (Some (Response (Array p))), ?s1)"
    using requestWithRetry_Reply [of s "Array p" "page_request requestUrl page"] Cons.prems(3,4)
    by simp
  define tail where
    "tail = map (\<lambda>i. on_wire (Authorization s) (page_request requestUrl i))
              [page + 1 ..< page + 1 + length ps + 1]"
  have u: "map (\<lambda>i. on_wire (Authorization s) (page_request requestUrl i))
             [page ..< page + length (p # ps) + 1]
           = on_wire (Authorization s) (page_request requestUrl page) # tail"
    unfolding tail_def by (simp add: upt_conv_Cons del: upt_Suc)
  have ih: "requestIterator_loop requestUrl (\<lambda>item c. Inr (g item c))
              (page + 1) (fold g p c) ?s1 =
           Some (Inr (), fold g (concat (ps @ [lastp])) (fold g p c),
                 ?s1\<lparr>script := rest, sent := sent ?s1 @ tail\<rparr>)"
    unfolding tail_def
    using Cons.IH [of ?s1 "page + 1" "fold g p c"] Cons.prems by simp
  have pos: "0 < length p" using len by (simp add: PAGE_SIZE_def)
  have step: "requestIterator_loop requestUrl (\<lambda>item c. Inr (g item c)) page c s =
              requestIterator_loop requestUrl (\<lambda>item c. Inr (g item c))
                (page + 1) (fold g p c) ?s1"
    by (simp add: requestIterator_loop.simps [of requestUrl "\<lambda>item c. Inr (g item c)" page c s]
          r flat_items_def for_each_total len PAGE_SIZE_def)
  show ?case
    unfolding u step ih by simp
qed

lemma nested_pages:
  assumes "\<forall>p\<in>set full. length p = PAGE_SIZE"
      and "length lastp \<noteq> PAGE_SIZE"
      and "Authorization s \<noteq> []"
      and "script s = map (\<lambda>p. Reply (Object (meta p) (Some p))) (full @ [lastp]) @- rest"
  shows "requestIteratorWithNestedData_loop requestUrl (\<lambda>item c. Inr (g item c)) page c s =
           Some (Inr (), fold g (concat (full @ [lastp])) c,
                 s\<lparr>script := rest,
                   sent := sent s @
                     map (\<lambda>i. on_wire (Authorization s) (page_request requestUrl i))
                       [page ..< page + length full + 1]\<rparr>)"
  using assms
proof (induction full arbitrary: page c s)
  case Nil
  then have r: "requestWithRetry (page_request requestUrl page) s =
           (Inr (Some (Response (Object (meta lastp) (Some lastp)))),
            s\<lparr>script := rest,
              sent := sent s @ [on_wire (Authorization s) (page_request requestUrl page)]\<rparr>)"
    using requestWithRetry_Reply
            [of s "Object (meta lastp) (Some lastp)" "page_request requestUrl page"]
    by simp
  show ?case
    using Nil.prems(2)
    by (subst requestIteratorWithNestedData_loop.simps)
       (simp add: r nested_items_def for_each_total)
next
  case (Cons p ps)
  let ?s1 = "s\<lparr>script := map (\<lambda>p. Reply (Object (meta p) (Some p))) (ps @ [lastp]) @- rest,
               sent := sent s @ [on_wire (Authorization s) (page_request requestUrl page)]\<rparr>"
  have len: "length p = PAGE_SIZE" using Cons.prems(1) by simp
  have r: "requestWithRetry (page_request requestUrl page) s =
             (Inr (Some (Response (Object (meta p) (Some p)))), ?s1)"
    using requestWithRetry_Reply
            [of s "Object (meta p) (Some p)" "page_request requestUrl page"] Cons.prems(3,4)
    by simp
  define tail where
    "tail = map (\<lambda>i. on_wire (Authorization s) (page_request requestUrl i))
              [page + 1 ..< page + 1 + length ps + 1]"
  have u: "map (\<lambda>i. on_wire (Authorization s) (page_request requestUrl i))
             [page ..< page + length (p # ps) + 1]
           = on_wire (Authorization s) (page_request requestUrl page) # tail"
    unfolding tail_def by (simp add: upt_conv_Cons del: upt_Suc)
  have ih: "requestIteratorWithNestedData_loop requestUrl (\<lambda>item c. Inr (g item c))
              (page + 1) (fold g p c) ?s1 =
           Some (Inr (), fold g (concat (ps @ [lastp])) (fold g p c),
                 ?s1\<lparr>script := rest, sent := sent ?s1 @ tail\<rparr>)"
    unfolding tail_def
    using Cons.IH [of ?s1 "page + 1" "fold g p c"] Cons.prems by simp
  have pos: "0 < length p" using len by (simp add: PAGE_SIZE_def)
  have step: "requestIteratorWithNestedData_loop requestUrl (\<lambda>item c. Inr (g item c)) page c s =
              requestIteratorWithNestedData_loop requestUrl (\<lambda>item c. Inr (g item c))
                (page + 1) (fold g p c) ?s1"
    by (simp add: requestIteratorWithNestedData_loop.simps [of requestUrl "\<lambda>item c. Inr (g item c)" page c s]
          r nested_items_def for_each_total len PAGE_SIZE_def)
  show ?case
    unfolding u step ih by simp
qed

lemma flat_pages_fresh:
  assumes "\<forall>p\<in>set full. length p = PAGE_SIZE"
      and "length lastp \<noteq> PAGE_SIZE"
      and "Authorization s = []"
      and "bearer_of tb = Inr bearer"
      and "script s = Reply tb ## map (\<lambda>p. Reply (Array p)) (full @ [lastp]) @- rest"
  shows "requestIterator_loop requestUrl (\<lambda>item c. Inr (g item c)) page c s =
           Some (Inr (), fold g (concat (full @ [lastp])) c,
                 s\<lparr>script := rest,
                   sent := sent s @ on_wire [] (token_request (config s)) #
                     map (\<lambda>i. on_wire bearer (page_request requestUrl i))
                       [page ..< page + length full + 1],
                   Authorization := bearer\<rparr>)"
proof (cases full)
  case Nil
  have r: "requestWithRetry (page_request requestUrl page) s =
           (Inr (Some (Response (Array lastp))),
            s\<lparr>script := rest,
              sent := sent s @ [on_wire [] (token_request (config s)),
                                on_wire bearer (page_request requestUrl page)],
              Authorization := bearer\<rparr>)"
    using requestWithRetry_token_Reply
            [where s = s and tb = tb and bearer = bearer and b = "Array lastp"
               and opts = "page_request requestUrl page"] assms(3-5) Nil
    by simp
  show ?thesis
    using assms(2) Nil
    by (subst requestIterator_loop.simps) (simp add: r flat_items_def for_each_total)
next
  case (Cons p ps)
  let ?s1 = "s\<lparr>script := map (\<lambda>p. Reply (Array p)) (ps @ [lastp]) @- rest,
               sent := sent s @ [on_wire [] (token_request (config s)),
                                 on_wire bearer (page_request requestUrl page)],
               Authorization := bearer\<rparr>"
  have len: "length p = PAGE_SIZE" using assms(1) Cons by simp
  have r: "requestWithRetry (page_request requestUrl page) s =
             (Inr (Some (Response (Array p))), ?s1)"
    using requestWithRetry_token_Reply
            [where s = s and tb = tb and bearer = bearer and b = "Array p"
               and opts = "page_request requestUrl page"] assms(3-5) Cons
    by simp
  define tail where
    "tail = map (\<lambda>i. on_wire bearer (page_request requestUrl i))
              [page + 1 ..< page + 1 + length ps + 1]"
  have u: "map (\<lambda>i. on_wire bearer (page_request requestUrl i))
             [page ..< page + length full + 1]
           = on_wire bearer (page_request requestUrl page) # tail"
    unfolding tail_def Cons by (simp add: upt_conv_Cons del: upt_Suc)
  have "bearer \<noteq> []" using assms(4) by (rule bearer_of_nonempty)
  then have rest: "requestIterator_loop requestUrl (\<lambda>item c. Inr (g item c))
              (page + 1) (fold g p c) ?s1 =
           Some (Inr (), fold g (concat (ps @ [lastp])) (fold g p c),
                 ?s1\<lparr>script := rest, sent := sent ?s1 @ tail\<rparr>)"
    unfolding tail_def
    using flat_pages [of ps lastp ?s1 rest requestUrl g "page + 1" "fold g p c"] assms(1,2) Cons
    by simp
  have step: "requestIterator_loop requestUrl (\<lambda>item c. Inr (g item c)) page c s =
              requestIterator_loop requestUrl (\<lambda>item c. Inr (g item c))
                (page + 1) (fold g p c) ?s1"
    by (simp add: requestIterator_loop.simps [of requestUrl "\<lambda>item c. Inr (g item c)" page c s]
          r flat_items_def for_each_total len PAGE_SIZE_def)
  show ?thesis
    unfolding u step rest by (simp add: Cons)
qed

lemma nested_pages_fresh:
  assumes "\<forall>p\<in>set full. length p = PAGE_SIZE"
      and "length lastp \<noteq> PAGE_SIZE"
      and "Authorization s = []"
      and "bearer_of tb = Inr bearer"
      and "script s = Reply tb ## map (\<lambda>p. Reply (Object (meta p) (Some p))) (full @ [lastp]) @- rest"
  shows "requestIteratorWithNestedData_loop requestUrl (\<lambda>item c. Inr (g item c)) page c s =
           Some (Inr (), fold g (concat (full @ [lastp])) c,
                 s\<lparr>script := rest,
                   sent := sent s @ on_wire [] (token_request (config s)) #
                     map (\<lambda>i. on_wire bearer (page_request requestUrl i))
                       [page ..< page + length full + 1],
                   Authorization := bearer\<rparr>)"
proof (cases full)
  case Nil
  have r: "requestWithRetry (page_request requestUrl page) s =
           (Inr (Some (Response (Object (meta lastp) (Some lastp)))),
            s\<lparr>script := rest,
              sent := sent s @ [on_wire [] (token_request (config s)),
                                on_wire bearer (page_request requestUrl page)],
              Authorization := bearer\<rparr>)"
    using requestWithRetry_token_Reply
            [where s = s and tb = tb and bearer = bearer and b = "Object (meta lastp) (Some lastp)"
               and opts = "page_request requestUrl page"] assms(3-5) Nil
    by simp
  show ?thesis
    using assms(2) Nil
    by (subst requestIteratorWithNestedData_loop.simps) (simp add: r nested_items_def for_each_total)
next
  case (Cons p ps)
  let ?s1 = "s\<lparr>script := map (\<lambda>p. Reply (Object (meta p) (Some p))) (ps @ [lastp]) @- rest,
               sent := sent s @ [on_wire [] (token_request (config s)),
                                 on_wire bearer (page_request requestUrl page)],
               Authorization := bearer\<rparr>"
  have len: "length p = PAGE_SIZE" using assms(1) Cons by simp
  have r: "requestWithRetry (page_request requestUrl page) s =
             (Inr (Some (Response (Object (meta p) (Some p)))), ?s1)"
    using requestWithRetry_token_Reply
            [where s = s and tb = tb and bearer = bearer and b = "Object (meta p) (Some p)"
               and opts = "page_request requestUrl page"] assms(3-5) Cons
    by simp
  define tail where
    "tail = map (\<lambda>i. on_wire bearer (page_request requestUrl i))
              [page + 1 ..< page + 1 + length ps + 1]"
  have u: "map (\<lambda>i. on_wire bearer (page_request requestUrl i))
             [page ..< page + length full + 1]
           = on_wire bearer (page_request requestUrl page) # tail"
    unfolding tail_def Cons by (simp add: upt_conv_Cons del: upt_Suc)
  have "bearer \<noteq> []" using assms(4) by (rule bearer_of_nonempty)
  then have rest: "requestIteratorWithNestedData_loop requestUrl (\<lambda>item c. Inr (g item c))
              (page + 1) (fold g p c) ?s1 =
           Some (Inr (), fold g (concat (ps @ [lastp])) (fold g p c),
                 ?s1\<lparr>script := rest, sent := sent ?s1 @ tail\<rparr>)"
    unfolding tail_def
    using nested_pages [of ps lastp ?s1 meta rest requestUrl g "page + 1" "fold g p c"] assms(1,2) Cons
    by simp
  have step: "requestIteratorWithNestedData_loop requestUrl (\<lambda>item c. Inr (g item c)) page c s =
              requestIteratorWithNestedData_loop requestUrl (\<lambda>item c. Inr (g item c))
                (page + 1) (fold g p c) ?s1"
    by (simp add: requestIteratorWithNestedData_loop.simps [of requestUrl "\<lambda>item c. Inr (g item c)" page c s]
          r nested_items_def for_each_total len PAGE_SIZE_def)
  show ?thesis
    unfolding u step rest by (simp add: Cons)
qed

text \<open>
  C1: let the provider return the pages \<open>full @ [lastp]\<close>, every page of \<open>full\<close> with
  100 records and \<open>lastp\<close> with another number of them (fewer, possibly none), after
  the token reply that a client with an empty token slot asks for first. Then both
  iterators return normally, having called an iteratee that does not throw once on
  every record, in the order of the records within each page and of the pages; they
  have requested the pages 1, 2, ... up to the short one with \<open>limit=100\<close> and
  nothing after it. For the iteratee that keeps its arguments, the records kept are
  the pages' records in order.
\<close>

theorem iterators_visit_every_record:
  assumes "\<forall>p\<in>set full. length p = PAGE_SIZE"
      and "length lastp \<noteq> PAGE_SIZE"
      and "if Authorization s = [] then pre = [Reply tb] \<and> bearer_of tb = Inr bearer
           else pre = [] \<and> bearer = Authorization s"
      and "s' = s\<lparr>script := rest,
                   sent := sent s @ map (\<lambda>out. on_wire [] (token_request (config s))) pre @
                     map (\<lambda>i. on_wire bearer (page_request requestUrl i))
                       [1 ..< 1 + length full + 1],
                   Authorization := bearer\<rparr>"
  shows "(script s = pre @- map (\<lambda>p. Reply (Array p)) (full @ [lastp]) @- rest \<longrightarrow>
            requestIterator requestUrl (\<lambda>item c. Inr (g item c)) c s =
              Some (Inr (), fold g (concat (full @ [lastp])) c, s')
            \<and> requestIterator requestUrl collect log s =
              Some (Inr (), log @ concat (full @ [lastp]), s'))
         \<and> (script s = pre @- map (\<lambda>p. Reply (Object (meta p) (Some p))) (full @ [lastp]) @- rest
            \<longrightarrow>
            requestIteratorWithNestedData requestUrl (\<lambda>item c. Inr (g item c)) c s =
              Some (Inr (), fold g (concat (full @ [lastp])) c, s')
            \<and> requestIteratorWithNestedData requestUrl collect log s =
              Some (Inr (), log @ concat (full @ [lastp]), s'))"
proof -
  have c: "collect = (\<lambda>item c. Inr ((\<lambda>item c. c @ [item]) item c))"
    by (rule ext, rule ext) (simp add: collect_def)
  have flat: "requestIterator_loop requestUrl (\<lambda>item c. Inr (h item c)) 1 c0 s =
                Some (Inr (), fold h (concat (full @ [lastp])) c0, s')"
    if "script s = pre @- map (\<lambda>p. Reply (Array p)) (full @ [lastp]) @- rest"
    for h :: "'a \<Rightarrow> 'd \<Rightarrow> 'd" and c0
  proof (cases "Authorization s = []")
    case True
    then show ?thesis
      using flat_pages_fresh [of full lastp s tb bearer rest requestUrl h 1 c0] assms that
      by simp
  next
    case False
    then show ?thesis
      using flat_pages [of full lastp s rest requestUrl h 1 c0] assms that
      by simp
  qed
  have nested: "requestIteratorWithNestedData_loop requestUrl (\<lambda>item c. Inr (h item c)) 1 c0 s =
                Some (Inr (), fold h (concat (full @ [lastp])) c0, s')"
    if "script s = pre @- map (\<lambda>p. Reply (Object (meta p) (Some p))) (full @ [lastp]) @- rest"
    for h :: "'a \<Rightarrow> 'd \<Rightarrow> 'd" and c0
  proof (cases "Authorization s = []")
    case True
    then show ?thesis
      using nested_pages_fresh [of full lastp s tb bearer meta rest requestUrl h 1 c0] assms that
      by simp
  next
    case False
    then show ?thesis
      using nested_pages [of full lastp s meta rest requestUrl h 1 c0] assms that
      by simp
  qed
  show ?thesis
    unfolding requestIterator_def requestIteratorWithNestedData_def
    using flat [of g c] flat [of "\<lambda>item c. c @ [item]" log]
          nested [of g c] nested [of "\<lambda>item c. c @ [item]" log]
    by (simp add: c [symmetric] fold_collect)
qed

theorem iterators_visit_every_record_witness:
  "iterateSites collect []
     (example_client ''Bearer t''
        (map (\<lambda>p. Reply (Array p)) [replicate 100 1, replicate 100 2, replicate 47 3]))
   = Some (Inr (), replicate 100 1 @ replicate 100 2 @ replicate 47 3,
       (example_client ''Bearer t'' [])
         \<lparr>sent := map (\<lambda>i. on_wire ''Bearer t'' (page_request ''/deployments/v2/sites'' i))
                    [1, 2, 3]\<rparr>)
   \<and> length (replicate 100 (1::nat) @ replicate 100 2 @ replicate 47 3) = 247
   \<and> map (\<lambda>i. url (page_request ''/deployments/v2/sites'' i)) [1, 2, 3]
       = [''https://api.umbrella.com/deployments/v2/sites?page=1&limit=100'',
          ''https://api.umbrella.com/deployments/v2/sites?page=2&limit=100'',
          ''https://api.umbrella.com/deployments/v2/sites?page=3&limit=100'']
   \<and> iterateDestinationLists collect []
       (example_client []
          (Reply (Object (Some ''tok'') None) #
           map (\<lambda>p. Reply (Object None (Some p)))
             [replicate 100 1, replicate 100 2, replicate 47 3]))
     = Some (Inr (), replicate 100 1 @ replicate 100 2 @ replicate 47 3,
         (example_client ''Bearer tok'' [])
           \<lparr>sent := on_wire [] (token_request example_config) #
                    map (\<lambda>i. on_wire ''Bearer tok''
                                (page_request ''/policies/v2/destinationlists'' i))
                      [1, 2, 3]\<rparr>)"
proof -
  let ?full = "[replicate 100 1, replicate 100 2] :: nat list list"
  let ?lastp = "replicate 47 3 :: nat list"
  let ?rest = "sconst (Failure ''socket hang up'' ''FetchError'') :: nat outcome stream"
  let ?held = "example_client ''Bearer t''
        (map (\<lambda>p. Reply (Array p)) [replicate 100 1, replicate 100 2, replicate 47 3])"
  let ?fresh = "example_client []
          (Reply (Object (Some ''tok'') None) #
           map (\<lambda>p. Reply (Object None (Some p)))
             [replicate 100 1, replicate 100 2, replicate 47 3])"
  have h1: "\<forall>p\<in>set ?full. length p = PAGE_SIZE"
    by (simp add: PAGE_SIZE_def)
  have h2: "length ?lastp \<noteq> PAGE_SIZE"
    by (simp add: PAGE_SIZE_def)
  have h3: "if Authorization ?held = [] then [] = [Reply Absent] \<and> bearer_of Absent = Inr ''Bearer t''
            else [] = ([] :: nat outcome list) \<and> ''Bearer t'' = Authorization ?held"
    by (simp add: example_client_def)
  have h3': "if Authorization ?fresh = []
             then [Reply (Object (Some ''tok'') None)] = [Reply (Object (Some ''tok'') None)]
                  \<and> bearer_of (Object (Some ''tok'') None :: nat body) = Inr ''Bearer tok''
             else [Reply (Object (Some ''tok'') None)] = ([] :: nat outcome list)
                  \<and> ''Bearer tok'' = Authorization ?fresh"
    by (simp add: example_client_def bearer_of_def)
  have r: "[1 ..< 1 + length ?full + 1] = [1, 2, 3]"
    by (simp add: upt_conv_Cons)
  have u: "map (\<lambda>i. url (page_request ''/deployments/v2/sites'' i)) [1, 2, 3]
       = [''https://api.umbrella.com/deployments/v2/sites?page=1&limit=100'',
          ''https://api.umbrella.com/deployments/v2/sites?page=2&limit=100'',
          ''https://api.umbrella.com/deployments/v2/sites?page=3&limit=100'']"
    by (simp add: page_request_def BASE_URL_def PAGE_SIZE_def show_nat.simps)
  note a = iterators_visit_every_record
             [OF h1 h2 h3 refl, where rest = ?rest and requestUrl = "''/deployments/v2/sites''"
                and log = "[]" and g = "\<lambda>item c. c @ [item]" and c = "[]"]
  note b = iterators_visit_every_record
             [OF h1 h2 h3' refl, where rest = ?rest
                and requestUrl = "''/policies/v2/destinationlists''"
                and log = "[]" and meta = "\<lambda>p. None"
                and g = "\<lambda>item c. c @ [item]" and c = "[]"]
  have a': "requestIterator ''/deployments/v2/sites'' collect [] ?held =
              Some (Inr (), replicate 100 1 @ replicate 100 2 @ replicate 47 3,
                (example_client ''Bearer t'' [])
                  \<lparr>sent := map (\<lambda>i. on_wire ''Bearer t''
                                       (page_request ''/deployments/v2/sites'' i))
                             [1, 2, 3]\<rparr>)"
    using a [unfolded r] by (simp add: example_client_def)
  have b': "requestIteratorWithNestedData ''/policies/v2/destinationlists'' collect [] ?fresh =
              Some (Inr (), replicate 100 1 @ replicate 100 2 @ replicate 47 3,
                (example_client ''Bearer tok'' [])
                  \<lparr>sent := on_wire [] (token_request example_config) #
                     map (\<lambda>i. on_wire ''Bearer tok''
                                 (page_request ''/policies/v2/destinationlists'' i))
                       [1, 2, 3]\<rparr>)"
    using b [unfolded r] by (simp add: example_client_def)
  have n: "length (replicate 100 (1::nat) @ replicate 100 2 @ replicate 47 3) = 247"
    by simp
  from a' n u b' show ?thesis
    unfolding iterateSites_def iterateDestinationLists_def by (intro conjI)
qed

subsection \<open>The token across a run\<close>

lemma token_discipline_iff:
  "token_discipline s s' \<longleftrightarrow>
     (\<exists>calls outs.
        sent s' = sent s @ calls \<and> script s = outs @- script s' \<and> length outs = length calls
        \<and> (\<not> list_ex auth_failure outs \<longrightarrow>
             (Authorization s \<noteq> [] \<longrightarrow>
                Authorization s' = Authorization s \<and> \<not> list_ex is_token_post calls)
             \<and> length (filter token_granted (zip calls outs)) =
                 (if Authorization s = [] \<and> Authorization s' \<noteq> [] then 1 else 0)))"
  (is "?lhs \<longleftrightarrow> ?rhs")
proof
  assume l: ?lhs
  have "length (consumed s s') = length (new_calls s s')"
    by (simp add: consumed_def new_calls_def)
  with l show ?rhs
    unfolding token_discipline_def exchanges_def
    by (intro exI [where x = "new_calls s s'"] exI [where x = "consumed s s'"])
       (simp split: if_splits)
next
  assume ?rhs
  then obtain calls outs where
    a: "sent s' = sent s @ calls" "script s = outs @- script s'" "length outs = length calls"
    and b: "\<not> list_ex auth_failure outs \<longrightarrow>
             (Authorization s \<noteq> [] \<longrightarrow>
                Authorization s' = Authorization s \<and> \<not> list_ex is_token_post calls)
             \<and> length (filter token_granted (zip calls outs)) =
                 (if Authorization s = [] \<and> Authorization s' \<noteq> [] then 1 else 0)"
    by blast
  have n: "new_calls s s' = calls"
    using a(1) by (simp add: new_calls_def)
  have o: "consumed s s' = outs"
    using a by (simp add: consumed_def stake_shift)
  show ?lhs
    unfolding token_discipline_def exchanges_def n o using a b by simp
qed

lemma token_discipline_refl: "token_discipline s s"
  unfolding token_discipline_iff
  by (rule exI [where x = "[]"], rule exI [where x = "[]"]) simp

lemma token_discipline_trans:
  assumes "token_discipline s s1" and "token_discipline s1 s2"
  shows "token_discipline s s2"
proof -
  from assms(1) obtain calls1 outs1 where
    a: "sent s1 = sent s @ calls1" "script s = outs1 @- script s1" "length outs1 = length calls1"
    and a': "\<not> list_ex auth_failure outs1 \<Longrightarrow>
             (Authorization s \<noteq> [] \<longrightarrow>
                Authorization s1 = Authorization s \<and> \<not> list_ex is_token_post calls1)
             \<and> length (filter token_granted (zip calls1 outs1)) =
                 (if Authorization s = [] \<and> Authorization s1 \<noteq> [] then 1 else 0)"
    unfolding token_discipline_iff by blast
  from assms(2) obtain calls2 outs2 where
    b: "sent s2 = sent s1 @ calls2" "script s1 = outs2 @- script s2" "length outs2 = length calls2"
    and b': "\<not> list_ex auth_failure outs2 \<Longrightarrow>
             (Authorization s1 \<noteq> [] \<longrightarrow>
                Authorization s2 = Authorization s1 \<and> \<not> list_ex is_token_post calls2)
             \<and> length (filter token_granted (zip calls2 outs2)) =
                 (if Authorization s1 = [] \<and> Authorization s2 \<noteq> [] then 1 else 0)"
    unfolding token_discipline_iff by blast
  have c: "sent s2 = sent s @ (calls1 @ calls2)" "script s = (outs1 @ outs2) @- script s2"
          "length (outs1 @ outs2) = length (calls1 @ calls2)"
    using a b by simp_all
  have d: "(Authorization s \<noteq> [] \<longrightarrow>
                Authorization s2 = Authorization s \<and> \<not> list_ex is_token_post (calls1 @ calls2))
             \<and> length (filter token_granted (zip (calls1 @ calls2) (outs1 @ outs2))) =
                 (if Authorization s = [] \<and> Authorization s2 \<noteq> [] then 1 else 0)"
    if "\<not> list_ex auth_failure (outs1 @ outs2)"
  proof -
    from that have "\<not> list_ex auth_failure outs1" "\<not> list_ex auth_failure outs2"
      by (simp_all add: list_ex_iff)
    from a' [OF this(1)] b' [OF this(2)] a(3) show ?thesis
      by (auto simp: list_ex_iff split: if_splits)
  qed
  show ?thesis
    unfolding token_discipline_iff using c d by blast
qed

lemma not_token_post: "method opts \<noteq> ''POST'' \<Longrightarrow> \<not> is_token_post (on_wire auth opts)"
  by (simp add: is_token_post_def on_wire_def)

lemma token_post: "is_token_post (on_wire auth (token_request cfg))"
  by (simp add: is_token_post_def on_wire_def token_request_def)

lemma retry_pass_discipline:
  assumes "method opts \<noteq> ''POST''" and "retry_pass opts rc s = (p, s')"
  shows "token_discipline s s'"
proof (cases "Authorization s = []")
  case False
  from retry_pass_held [OF False assms(2)]
  have "sent s' = sent s @ [on_wire (Authorization s) opts]"
       "script s = [shd (script s)] @- script s'"
       "length [shd (script s)] = length [on_wire (Authorization s) opts]"
       "\<not> list_ex auth_failure [shd (script s)] \<longrightarrow>
             (Authorization s \<noteq> [] \<longrightarrow>
                Authorization s' = Authorization s
                \<and> \<not> list_ex is_token_post [on_wire (Authorization s) opts])
             \<and> length (filter token_granted
                  (zip [on_wire (Authorization s) opts] [shd (script s)])) =
                 (if Authorization s = [] \<and> Authorization s' \<noteq> [] then 1 else 0)"
    using False not_token_post [OF assms(1)]
    by (simp_all add: token_granted_def)
  then show ?thesis
    unfolding token_discipline_iff by blast
next
  case True
  from retry_pass_empty [OF True assms(2)]
  consider
    (failed) "sent s' = sent s @ [on_wire [] (token_request (config s))]"
             "script s' = stl (script s)" "Authorization s' = []"
             "\<not> yields_token (shd (script s))"
  | (granted) bearer where
             "sent s' = sent s @ [on_wire [] (token_request (config s)), on_wire bearer opts]"
             "script s' = stl (stl (script s))" "yields_token (shd (script s))"
             "\<not> auth_failure (shd (stl (script s))) \<longrightarrow> Authorization s' \<noteq> []"
    by blast
  then show ?thesis
  proof cases
    case failed
    then have "sent s' = sent s @ [on_wire [] (token_request (config s))]"
       "script s = [shd (script s)] @- script s'"
       "length [shd (script s)] = length [on_wire [] (token_request (config s))]"
       "\<not> list_ex auth_failure [shd (script s)] \<longrightarrow>
             (Authorization s \<noteq> [] \<longrightarrow>
                Authorization s' = Authorization s
                \<and> \<not> list_ex is_token_post [on_wire [] (token_request (config s))])
             \<and> length (filter token_granted
                  (zip [on_wire [] (token_request (config s))] [shd (script s)])) =
                 (if Authorization s = [] \<and> Authorization s' \<noteq> [] then 1 else 0)"
      using True by (simp_all add: token_granted_def)
    then show ?thesis
      unfolding token_discipline_iff by blast
  next
    case granted
    have y: "\<not> auth_failure (shd (script s))"
      using granted(3) by (auto simp: yields_token_def auth_failure_def split: outcome.splits)
    have "sent s' = sent s @ [on_wire [] (token_request (config s)), on_wire bearer opts]"
       "script s = [shd (script s), shd (stl (script s))] @- script s'"
       "length [shd (script s), shd (stl (script s))] =
          length [on_wire [] (token_request (config s)), on_wire bearer opts]"
       "\<not> list_ex auth_failure [shd (script s), shd (stl (script s))] \<longrightarrow>
             (Authorization s \<noteq> [] \<longrightarrow>
                Authorization s' = Authorization s
                \<and> \<not> list_ex is_token_post
                      [on_wire [] (token_request (config s)), on_wire bearer opts])
             \<and> length (filter token_granted
                  (zip [on_wire [] (token_request (config s)), on_wire bearer opts]
                       [shd (script s), shd (stl (script s))])) =
                 (if Authorization s = [] \<and> Authorization s' \<noteq> [] then 1 else 0)"
      using True granted y not_token_post [OF assms(1)] token_post
      by (simp_all add: token_granted_def)
    then show ?thesis
      unfolding token_discipline_iff by blast
  qed
qed

lemma retry_loop_discipline:
  assumes "method opts \<noteq> ''POST''"
  shows "token_discipline s (snd (retry_loop opts rc s))"
  using assms
proof (induction opts rc s rule: retry_loop.induct)
  case (1 requestOptions retryCounter s)
  obtain p s1 where p: "retry_pass requestOptions retryCounter s = (p, s1)"
    by (cases "retry_pass requestOptions retryCounter s")
  have d1: "token_discipline s s1"
    using retry_pass_discipline [OF "1.prems" p] .
  show ?case
  proof (cases p)
    case (Returned response)
    then show ?thesis
      using d1 p by (simp add: retry_loop_Returned)
  next
    case (Raised e)
    then show ?thesis
      using d1 p by (simp add: retry_loop_Raised)
  next
    case (Again retryCounter')
    show ?thesis
    proof (cases "retryCounter' < MAX_RETRIES")
      case True
      have "token_discipline s1 (snd (retry_loop requestOptions retryCounter' s1))"
        using "1.IH" [OF p [symmetric] Again True "1.prems"] .
      then show ?thesis
        using d1 p Again True token_discipline_trans
        by (simp add: retry_loop_Again)
    next
      case False
      then show ?thesis
        using d1 p Again by (simp add: retry_loop_exhausted)
    qed
  qed
qed

lemma requestWithRetry_discipline:
  "method opts \<noteq> ''POST'' \<Longrightarrow> requestWithRetry opts s = (r, s') \<Longrightarrow> token_discipline s s'"
  using retry_loop_discipline [of opts s 0] by (simp add: requestWithRetry_def)

lemma requestIterator_loop_discipline:
  "requestIterator_loop requestUrl iteratee page c s = Some y \<Longrightarrow> token_discipline s (snd (snd y))"
  apply (rule requestIterator_loop.raw_induct
           [where P = "\<lambda>requestUrl iteratee page c s y. token_discipline s (snd (snd y))"])
   prefer 2
   apply assumption
  subgoal premises prems for loop requestUrl iteratee page c s y
  proof -
    obtain r s1 where r: "requestWithRetry (page_request requestUrl page) s = (r, s1)"
      by (cases "requestWithRetry (page_request requestUrl page) s")
    have "method (page_request requestUrl page) \<noteq> ''POST''"
      by (simp add: page_request_def)
    then have d1: "token_discipline s s1"
      using r by (rule requestWithRetry_discipline)
    have "token_discipline s1 (snd (snd y))"
      using prems token_discipline_refl [of s1]
      by (auto simp: r split: sum.splits option.splits prod.splits if_splits)
    with d1 show ?thesis
      by (rule token_discipline_trans)
  qed
  done

lemma requestIteratorWithNestedData_loop_discipline:
  "requestIteratorWithNestedData_loop requestUrl iteratee page c s = Some y \<Longrightarrow> token_discipline s (snd (snd y))"
  apply (rule requestIteratorWithNestedData_loop.raw_induct
           [where P = "\<lambda>requestUrl iteratee page c s y. token_discipline s (snd (snd y))"])
   prefer 2
   apply assumption
  subgoal premises prems for loop requestUrl iteratee page c s y
  proof -
    obtain r s1 where r: "requestWithRetry (page_request requestUrl page) s = (r, s1)"
      by (cases "requestWithRetry (page_request requestUrl page) s")
    have "method (page_request requestUrl page) \<noteq> ''POST''"
      by (simp add: page_request_def)
    then have d1: "token_discipline s s1"
      using r by (rule requestWithRetry_discipline)
    have "token_discipline s1 (snd (snd y))"
      using prems token_discipline_refl [of s1]
      by (auto simp: r split: sum.splits option.splits prod.splits if_splits)
    with d1 show ?thesis
      by (rule token_discipline_trans)
  qed
  done

lemma perform_discipline:
  "perform it c s = Some (r, c', s') \<Longrightarrow> token_discipline s s'"
  using requestIterator_loop_discipline requestIteratorWithNestedData_loop_discipline
  by (fastforce simp: perform_def requestIterator_def requestIteratorWithNestedData_def
        split: iteration.splits)

lemma run_iterations_discipline:
  "run_iterations its c s = Some (c', s') \<Longrightarrow> token_discipline s s'"
proof (induction its arbitrary: c s)
  case Nil
  then show ?case by (simp add: token_discipline_refl)
next
  case (Cons it its)
  then obtain r c1 s1 where p: "perform it c s = Some (r, c1, s1)"
      and q: "run_iterations its c1 s1 = Some (c', s')"
    by (auto split: option.splits)
  from perform_discipline [OF p] Cons.IH [OF q] show ?case
    by (rule token_discipline_trans)
qed

text \<open>
  C8, as the code has it. Take any number of iterations run one after the other on a
  client, and let no call of the run be answered with 401 or 403. Then at most one
  credential exchange of the run yields a token; and when the token slot is filled at
  the start, it keeps its value and the run issues no credential exchange at all,
  \<open>getToken\<close> returning the slot's value at once, with no call and no change of state.
  (An exchange that fails, say with 429, is repeated by the retry loop: the number of
  POSTs to the token endpoint is not bounded by one.)
\<close>

theorem token_acquired_at_most_once:
  assumes "run_iterations its c s = Some (c', s')"
      and "\<not> list_ex auth_failure (consumed s s')"
  shows "length (filter token_granted (exchanges s s')) \<le> 1
         \<and> (Authorization s \<noteq> [] \<longrightarrow>
              Authorization s' = Authorization s
              \<and> \<not> list_ex is_token_post (new_calls s s')
              \<and> getToken s = (Inr (Authorization s), s))"
proof -
  from run_iterations_discipline [OF assms(1)] obtain calls outs where
    a: "sent s' = sent s @ calls" "script s = outs @- script s'" "length outs = length calls"
    and b: "\<not> list_ex auth_failure outs \<Longrightarrow>
             (Authorization s \<noteq> [] \<longrightarrow>
                Authorization s' = Authorization s \<and> \<not> list_ex is_token_post calls)
             \<and> length (filter token_granted (zip calls outs)) =
                 (if Authorization s = [] \<and> Authorization s' \<noteq> [] then 1 else 0)"
    unfolding token_discipline_iff by blast
  have n: "new_calls s s' = calls"
    using a(1) by (simp add: new_calls_def)
  have o: "consumed s s' = outs"
    using a by (simp add: consumed_def stake_shift)
  from b assms(2) n o show ?thesis
    by (simp add: exchanges_def getToken_def)
qed

theorem token_acquired_at_most_once_witness:
  "run_iterations
     [FlatIteration ''/deployments/v2/sites'' collect,
      NestedIteration ''/policies/v2/destinationlists'' collect] []
     (example_client []
        [Reply (Object (Some ''tok'') None), Reply (Array [1, 2]),
         Reply (Object None (Some [3]))])
   = Some ([1, 2, 3],
       (example_client ''Bearer tok'' [])
         \<lparr>sent := [on_wire [] (token_request example_config),
                    on_wire ''Bearer tok'' (page_request ''/deployments/v2/sites'' 1),
                    on_wire ''Bearer tok'' (page_request ''/policies/v2/destinationlists'' 1)]\<rparr>)
   \<and> length (filter token_granted
        (exchanges
           (example_client []
              [Reply (Object (Some ''tok'') None), Reply (Array [1, 2]),
               Reply (Object None (Some [3]))])
           ((example_client ''Bearer tok'' [])
              \<lparr>sent := [on_wire [] (token_request example_config),
                    on_wire ''Bearer tok'' (page_request ''/deployments/v2/sites'' 1),
                    on_wire ''Bearer tok''
                      (page_request ''/policies/v2/destinationlists'' 1)]\<rparr>))) \<le> 1
   \<and> run_iterations
     [FlatIteration ''/deployments/v2/sites'' collect,
      NestedIteration ''/policies/v2/destinationlists'' collect] []
     (example_client ''Bearer t'' [Reply (Array [1, 2]), Reply (Object None (Some [3]))])
   = Some ([1, 2, 3],
       (example_client ''Bearer t'' [])
         \<lparr>sent := [on_wire ''Bearer t'' (page_request ''/deployments/v2/sites'' 1),
                    on_wire ''Bearer t'' (page_request ''/policies/v2/destinationlists'' 1)]\<rparr>)
   \<and> \<not> list_ex is_token_post
        (new_calls
           (example_client ''Bearer t'' [Reply (Array [1, 2]), Reply (Object None (Some [3]))])
           ((example_client ''Bearer t'' [])
              \<lparr>sent := [on_wire ''Bearer t'' (page_request ''/deployments/v2/sites'' 1),
                    on_wire ''Bearer t''
                      (page_request ''/policies/v2/destinationlists'' 1)]\<rparr>))
   \<and> getToken
        (example_client ''Bearer t'' [Reply (Array [1, 2]), Reply (Object None (Some [3]))])
       = (Inr ''Bearer t'',
          example_client ''Bearer t'' [Reply (Array [1, 2]), Reply (Object None (Some [3]))])"
proof -
  let ?its = "[FlatIteration ''/deployments/v2/sites'' collect,
      NestedIteration ''/policies/v2/destinationlists'' collect]
      :: (nat, nat list) iteration list"
  let ?fresh = "example_client []
        [Reply (Object (Some ''tok'') None), Reply (Array [1, 2]),
         Reply (Object None (Some [3]))]"
  let ?fresh' = "(example_client ''Bearer tok'' [])
         \<lparr>sent := [on_wire [] (token_request example_config),
                    on_wire ''Bearer tok'' (page_request ''/deployments/v2/sites'' 1),
                    on_wire ''Bearer tok'' (page_request ''/policies/v2/destinationlists'' 1)]\<rparr>"
  let ?held = "example_client ''Bearer t'' [Reply (Array [1, 2]), Reply (Object None (Some [3]))]"
  let ?held' = "(example_client ''Bearer t'' [])
         \<lparr>sent := [on_wire ''Bearer t'' (page_request ''/deployments/v2/sites'' 1),
                    on_wire ''Bearer t'' (page_request ''/policies/v2/destinationlists'' 1)]\<rparr>"
  have r1: "run_iterations ?its [] ?fresh = Some ([1, 2, 3], ?fresh')"
    by (simp add: perform_def requestIterator_def requestIteratorWithNestedData_def
          requestIterator_loop.simps requestIteratorWithNestedData_loop.simps
          requestWithRetry_def retry_loop.simps retry_pass_def attempt_def getToken_def
          request_def bearer_of_def flat_items_def nested_items_def PAGE_SIZE_def
          collect_def example_client_def)
  have r2: "run_iterations ?its [] ?held = Some ([1, 2, 3], ?held')"
    by (simp add: perform_def requestIterator_def requestIteratorWithNestedData_def
          requestIterator_loop.simps requestIteratorWithNestedData_loop.simps
          requestWithRetry_def retry_loop.simps retry_pass_def attempt_def getToken_def
          request_def bearer_of_def flat_items_def nested_items_def PAGE_SIZE_def
          collect_def example_client_def)
  have c1: "\<not> list_ex auth_failure (consumed ?fresh ?fresh')"
    by (simp add: consumed_def example_client_def auth_failure_def numeral_3_eq_3)
  have c2: "\<not> list_ex auth_failure (consumed ?held ?held')"
    by (simp add: consumed_def example_client_def auth_failure_def numeral_2_eq_2)
  have h: "Authorization ?held \<noteq> []"
    by (simp add: example_client_def)
  from token_acquired_at_most_once [OF r1 c1] token_acquired_at_most_once [OF r2 c2] h r1 r2
  show ?thesis
    by (simp add: example_client_def)
qed

text \<open>
  C8 as the specification words it, counting the POSTs to the token endpoint, does
  not hold: on a fresh client whose first credential exchange is answered with 429,
  one iteration issues two of them, and no call of the run is answered with 401 or
  403.
\<close>

theorem token_posts_counterexample:
  "run_iterations [FlatIteration ''/deployments/v2/sites'' collect] []
     (example_client []
        [HttpError 429 ''Too Many Requests'' None, Reply (Object (Some ''tok'') None),
         Reply (Array [1, 2, 3])])
   = Some ([1, 2, 3],
       (example_client ''Bearer tok'' [])
         \<lparr>sent := [on_wire [] (token_request example_config),
                    on_wire [] (token_request example_config),
                    on_wire ''Bearer tok'' (page_request ''/deployments/v2/sites'' 1)],
           slept := [Number 5000]\<rparr>)
   \<and> length (filter is_token_post
        [on_wire [] (token_request example_config),
         on_wire [] (token_request example_config),
         on_wire ''Bearer tok'' (page_request ''/deployments/v2/sites'' 1)]) = 2
   \<and> \<not> list_ex auth_failure
        [HttpError 429 ''Too Many Requests'' None, Reply (Object (Some ''tok'') None),
         Reply (Array [1, 2, 3]) :: nat outcome]"
proof -
  have "run_iterations [FlatIteration ''/deployments/v2/sites'' collect] []
     (example_client []
        [HttpError 429 ''Too Many Requests'' None, Reply (Object (Some ''tok'') None),
         Reply (Array [1, 2, 3])])
   = Some ([1, 2, 3],
       (example_client ''Bearer tok'' [])
         \<lparr>sent := [on_wire [] (token_request example_config),
                    on_wire [] (token_request example_config),
                    on_wire ''Bearer tok'' (page_request ''/deployments/v2/sites'' 1)],
           slept := [Number 5000]\<rparr>)"
    by (simp add: perform_def requestIterator_def requestIterator_loop.simps
          requestWithRetry_def retry_loop.simps retry_pass_def attempt_def getToken_def
          request_def handle_error_def await_timeout_def response_status_def response_retry_after_def
          bearer_of_def flat_items_def PAGE_SIZE_def MAX_RETRIES_def
          RATE_LIMIT_SLEEP_TIME_def collect_def example_client_def delay_defs)
  moreover have "length (filter is_token_post
        [on_wire [] (token_request example_config),
         on_wire [] (token_request example_config),
         on_wire ''Bearer tok'' (page_request ''/deployments/v2/sites'' 1)]) = 2"
    by (simp add: token_post not_token_post page_request_def)
  moreover have "\<not> list_ex auth_failure
        [HttpError 429 ''Too Many Requests'' None, Reply (Object (Some ''tok'') None),
         Reply (Array [1, 2, 3]) :: nat outcome]"
    by (simp add: auth_failure_def)
  ultimately show ?thesis by (intro conjI)
qed

end
